theory Spec2Isabelle
  imports Complex_Main
begin

section \<open>Shared vocabulary\<close>

text \<open>
  The two workers of the repository talk to three outside parties: HTTP upstreams
  (through \<open>fetch\<close>), a key-value store with per-key expiry, and the console. Every
  call to one of them is recorded as an event; a run of a handler is described by the
  list of events it produces, in program order.
\<close>

datatype error = Error string

text \<open>What a \<open>catch\<close> block of the retry loop can receive from its \<open>try\<close> body.\<close>

datatype cause =
    NetworkFailure       \<comment> \<open>\<open>fetch\<close> rejected\<close>
  | HttpError nat        \<comment> \<open>\<open>throw new Error(`HTTP ${response.status}`)\<close>\<close>
  | ParseFailure         \<comment> \<open>\<open>response.json()\<close> rejected\<close>

datatype event =
    HttpFetch string                   \<comment> \<open>\<open>fetch(url, ...)\<close>\<close>
  | LogFetchError nat cause            \<comment> \<open>\<open>console.error(`Fetch error (attempt ${i + 1}):`, error)\<close>\<close>
  | LogError string                    \<comment> \<open>any other \<open>console.error\<close>\<close>
  | Delay nat                          \<comment> \<open>\<open>await delay(ms)\<close>\<close>
  | KvGet string                       \<comment> \<open>\<open>kv.get(key)\<close>\<close>
  | KvPut string string "nat option"   \<comment> \<open>\<open>kv.put(key, value, { expirationTtl })\<close>\<close>
  | Alert string string                \<comment> \<open>the alert send for the entity with this store key;
                                            the second field is the address put in the message\<close>

text \<open>
  The answer of an upstream to one \<open>fetch\<close>: the promise rejects, or it resolves to a
  response with a status and a body; the body is \<open>None\<close> when \<open>response.json()\<close>
  cannot parse it.
\<close>

datatype 'a reply = Rejected | Reply nat "'a option"

definition ok :: "nat \<Rightarrow> bool" where
  "ok status \<longleftrightarrow> 200 \<le> status \<and> status \<le> 299"

section \<open>The webhook worker: constants\<close>

definition PROCESSED_TRANSACTIONS :: string where "PROCESSED_TRANSACTIONS = ''processed_txns''"
definition MAX_RETRIES :: nat where "MAX_RETRIES = 3"
definition RETRY_DELAY :: nat where "RETRY_DELAY = 1000"
definition REQUEST_DELAY :: nat where "REQUEST_DELAY = 500"

section \<open>The retry executor\<close>

text \<open>Decimal rendering of a number inside a template literal.\<close>

definition digit :: "nat \<Rightarrow> char" where
  "digit d = ''0123456789'' ! d"

fun show_nat :: "nat \<Rightarrow> string" where
  "show_nat n = (if n < 10 then [digit n] else show_nat (n div 10) @ [digit (n mod 10)])"

declare show_nat.simps [simp del]

text \<open>
  The body of the \<open>try\<close> block: \<open>fetch\<close>, the status check, \<open>response.json()\<close>.
  \<open>Inr\<close> is the value returned, \<open>Inl\<close> what reaches the \<open>catch\<close>.
\<close>

fun attempt :: "'a reply \<Rightarrow> cause + 'a" where
  "attempt Rejected = Inl NetworkFailure"
| "attempt (Reply status body) =
     (if \<not> ok status then Inl (HttpError status)
      else case body of None \<Rightarrow> Inl ParseFailure | Some j \<Rightarrow> Inr j)"

text \<open>
  \<open>for (let i = 0; i < retries; i++) { try { ... return ... } catch { log; delay } }\<close>
  followed by the final \<open>throw\<close>. \<open>net i\<close> is the upstream's answer to the attempt
  with loop index \<open>i\<close>. The message of the final error interpolates the constant
  \<open>MAX_RETRIES\<close>, not the parameter \<open>retries\<close>.
\<close>

function fetchWithRetry_loop ::
  "string \<Rightarrow> (nat \<Rightarrow> 'a reply) \<Rightarrow> nat \<Rightarrow> nat \<Rightarrow> (error + 'a) \<times> event list" where
  "fetchWithRetry_loop url net retries i =
     (if i < retries then
        (case attempt (net i) of
           Inr j \<Rightarrow> (Inr j, [HttpFetch url])
         | Inl c \<Rightarrow>
             (case fetchWithRetry_loop url net retries (Suc i) of
                (r, evs) \<Rightarrow> (r, HttpFetch url # LogFetchError (i + 1) c # Delay RETRY_DELAY # evs)))
      else
        (Inl (Error (''Failed to fetch '' @ url @ '' after '' @ show_nat MAX_RETRIES @ '' retries'')),
         []))"
  by pat_completeness auto
termination
  by (relation "measure (\<lambda>(url, net, retries, i). retries - i)") auto

declare fetchWithRetry_loop.simps [simp del]

definition fetchWithRetry :: "string \<Rightarrow> (nat \<Rightarrow> 'a reply) \<Rightarrow> nat \<Rightarrow> (error + 'a) \<times> event list" where
  "fetchWithRetry url net retries = fetchWithRetry_loop url net retries 0"

text \<open>The number of \<open>fetch\<close> calls in a run.\<close>

definition attempts :: "event list \<Rightarrow> nat" where
  "attempts evs = length (filter (\<lambda>e. case e of HttpFetch u \<Rightarrow> True | _ \<Rightarrow> False) evs)"

section \<open>The key-value store and the world of a run\<close>

text \<open>
  The key-value store is a service of the platform, outside the repository (the bindings
  \<open>TRACKED_TOKENS\<close> and \<open>KV_STORAGE\<close>): a map from keys to values with an optional
  time to live in seconds, with \<open>get\<close> and \<open>put\<close>. An entry whose time to live has
  run out is dropped by the store itself, between the calls of a handler; a marker that
  has not expired is an entry that is still in the map. Both calls are taken to succeed.
\<close>

type_synonym kvstore = "string \<rightharpoonup> string \<times> nat option"

record world =
  kv :: kvstore
  trace :: "event list"

definition emit :: "event \<Rightarrow> world \<Rightarrow> world" where
  "emit e w = w\<lparr>trace := trace w @ [e]\<rparr>"

text \<open>\<open>await kv.get(key)\<close>: the stored string, or \<open>null\<close>.\<close>

definition kv_get :: "string \<Rightarrow> world \<Rightarrow> string option \<times> world" where
  "kv_get key w = (map_option fst (kv w key), emit (KvGet key) w)"

text \<open>\<open>await kv.put(key, value, { expirationTtl: ttl })\<close>; no options is \<open>None\<close>.\<close>

definition kv_put :: "string \<Rightarrow> string \<Rightarrow> nat option \<Rightarrow> world \<Rightarrow> world" where
  "kv_put key v ttl w = emit (KvPut key v ttl) (w\<lparr>kv := (kv w)(key \<mapsto> (v, ttl))\<rparr>)"

text \<open>
  The result of \<open>kv.get\<close> used as a condition: \<open>null\<close> and the empty string are
  falsy, every other string is truthy.
\<close>

fun truthy :: "string option \<Rightarrow> bool" where
  "truthy None = False"
| "truthy (Some s) = (s \<noteq> [])"

section \<open>JavaScript values\<close>

text \<open>
  A number as \<open>JSON.parse\<close> can produce it: the value of a finite double, or an
  infinity (for a literal beyond the range of doubles). \<open>NaN\<close> has no literal.
\<close>

datatype number = Finite rat | PosInfinity | NegInfinity

fun number_truthy :: "number \<Rightarrow> bool" where
  "number_truthy (Finite r) = (r \<noteq> 0)"
| "number_truthy PosInfinity = True"
| "number_truthy NegInfinity = True"

text \<open>\<open>n >= c\<close> and \<open>n <= c\<close> for a finite constant \<open>c\<close>.\<close>

fun number_ge :: "number \<Rightarrow> rat \<Rightarrow> bool" where
  "number_ge (Finite r) c = (c \<le> r)"
| "number_ge PosInfinity c = True"
| "number_ge NegInfinity c = False"

fun number_le :: "number \<Rightarrow> rat \<Rightarrow> bool" where
  "number_le (Finite r) c = (r \<le> c)"
| "number_le PosInfinity c = False"
| "number_le NegInfinity c = True"

text \<open>
  A parsed JSON document, and \<open>undefined\<close> for what a property access finds missing.
  An object lists its properties, each name once.
\<close>

datatype jsval =
    JUndefined | JNull | JBool bool | JNum number | JStr string
  | JArr "jsval list" | JObj "(string \<times> jsval) list"

fun js_truthy :: "jsval \<Rightarrow> bool" where
  "js_truthy JUndefined = False"
| "js_truthy JNull = False"
| "js_truthy (JBool b) = b"
| "js_truthy (JNum n) = number_truthy n"
| "js_truthy (JStr s) = (s \<noteq> [])"
| "js_truthy (JArr xs) = True"
| "js_truthy (JObj props) = True"

definition TypeError :: error where
  "TypeError = Error ''TypeError''"

text \<open>
  \<open>v.k\<close> for the property names the handlers read (\<open>type\<close>, \<open>platform\<close>,
  \<open>events\<close>, \<open>swap\<close>, \<open>inAmount\<close>, \<open>tokenAddress\<close>, \<open>signature\<close>), none of
  which a prototype defines: the property of an object, \<open>undefined\<close> on an object
  without it and on a boolean, number, string or array, and a \<open>TypeError\<close> on
  \<open>null\<close> and \<open>undefined\<close>. \<open>v?.k\<close> gives \<open>undefined\<close> instead of throwing.
\<close>

fun own_prop :: "string \<Rightarrow> jsval \<Rightarrow> jsval" where
  "own_prop k (JObj props) = (case map_of props k of None \<Rightarrow> JUndefined | Some v \<Rightarrow> v)"
| "own_prop k v = JUndefined"

fun get_prop :: "string \<Rightarrow> jsval \<Rightarrow> error + jsval" where
  "get_prop k JUndefined = Inl TypeError"
| "get_prop k JNull = Inl TypeError"
| "get_prop k v = Inr (own_prop k v)"

definition opt_prop :: "string \<Rightarrow> jsval \<Rightarrow> jsval" where
  "opt_prop k v = own_prop k v"

text \<open>
  The conversions of the language that are not spelled out here are parameters: what
  \<open>v <= 0\<close> gives for a string, an array or an object (the operand is converted to a
  number first; the conversion of an object can throw), and what a template literal
  makes of a number, an array or an object.
\<close>

record coercions =
  le_zero_of :: "jsval \<Rightarrow> error + bool"
  string_of :: "jsval \<Rightarrow> error + string"

text \<open>
  \<open>v <= 0\<close>: \<open>undefined\<close> converts to \<open>NaN\<close> and every comparison with
  \<open>NaN\<close> is false; \<open>null\<close> and \<open>false\<close> convert to 0, \<open>true\<close> to 1.
\<close>

fun le_zero :: "coercions \<Rightarrow> jsval \<Rightarrow> error + bool" where
  "le_zero co JUndefined = Inr False"
| "le_zero co JNull = Inr True"
| "le_zero co (JBool b) = Inr (\<not> b)"
| "le_zero co (JNum n) = Inr (number_le n 0)"
| "le_zero co v = le_zero_of co v"

text \<open>\<open>`${v}`\<close>\<close>

fun js_toString :: "coercions \<Rightarrow> jsval \<Rightarrow> error + string" where
  "js_toString co (JStr s) = Inr s"
| "js_toString co JUndefined = Inr ''undefined''"
| "js_toString co JNull = Inr ''null''"
| "js_toString co (JBool b) = Inr (if b then ''true'' else ''false'')"
| "js_toString co v = string_of co v"

section \<open>The polling worker: new tokens\<close>

text \<open>
  The fields of \<open>HeliusToken\<close> that \<open>checkNewTokens\<close> reads to decide, typed as the
  interface declares them (\<open>id_tok\<close> is \<open>id\<close>, \<open>supply_tok\<close> is \<open>supply\<close>). The
  optional objects \<open>price_info\<close> and \<open>token_info\<close> are \<open>None\<close> when absent.
\<close>

record price_info =
  price_per_token :: number
  total_price :: number

record token_info =
  supply_tok :: number

record HeliusToken =
  id_tok :: string
  name :: string
  symbol :: string
  price_info :: "price_info option"
  token_info :: "token_info option"

text \<open>
  \<open>token.token_info?.supply && token.price_info?.price_per_token
     ? token.token_info.supply * token.price_info.price_per_token : 0\<close>:
  a missing object and the number 0 are both falsy. The product is the one of the
  doubles, rounded; \<open>mul\<close> is that multiplication, a parameter.
\<close>

definition marketCap :: "(number \<Rightarrow> number \<Rightarrow> number) \<Rightarrow> HeliusToken \<Rightarrow> number" where
  "marketCap mul token =
     (case token_info token of
        None \<Rightarrow> Finite 0
      | Some ti \<Rightarrow>
          if \<not> number_truthy (supply_tok ti) then Finite 0
          else (case price_info token of
                  None \<Rightarrow> Finite 0
                | Some p \<Rightarrow>
                    if \<not> number_truthy (price_per_token p) then Finite 0
                    else mul (supply_tok ti) (price_per_token p)))"

text \<open>
  \<open>sendAlert\<close> builds the message and awaits \<open>sendTelegramMessage(env, message)\<close>, a
  function this worker's file does not define. Its behaviour is a parameter: \<open>send n\<close>
  tells whether the call recorded at position \<open>n\<close> of the trace returns (\<open>True\<close>) or
  throws (\<open>False\<close>). An exception leaves \<open>sendAlert\<close> and the loop around it.
\<close>

definition sendAlert :: "(nat \<Rightarrow> bool) \<Rightarrow> HeliusToken \<Rightarrow> world \<Rightarrow> error option \<times> world" where
  "sendAlert send token w =
     (let w' = emit (Alert (id_tok token) (id_tok token)) w
      in if send (length (trace w)) then (None, w') else (Some (Error ''sendTelegramMessage''), w'))"

text \<open>
  The \<open>for (const token of tokens)\<close> loop of \<open>checkNewTokens\<close>. The result is the
  exception that ended the loop early, if any, and the world at that point.
\<close>

fun checkNewTokens_loop ::
  "(number \<Rightarrow> number \<Rightarrow> number) \<Rightarrow> (nat \<Rightarrow> bool) \<Rightarrow> HeliusToken list \<Rightarrow> world \<Rightarrow> error option \<times> world" where
  "checkNewTokens_loop mul send [] w = (None, w)"
| "checkNewTokens_loop mul send (token # tokens) w =
     (if number_ge (marketCap mul token) 100000 then
        (case kv_get (id_tok token) w of
           (isTracked, w1) \<Rightarrow>
             if \<not> truthy isTracked then
               (case sendAlert send token w1 of
                  (Some e, w2) \<Rightarrow> (Some e, w2)
                | (None, w2) \<Rightarrow>
                    checkNewTokens_loop mul send tokens (kv_put (id_tok token) ''tracked'' None w2))
             else checkNewTokens_loop mul send tokens w1)
      else checkNewTokens_loop mul send tokens w)"

text \<open>
  \<open>checkNewTokens\<close>: one \<open>fetch\<close> of the asset list, then the loop, all inside one
  \<open>try\<close> whose \<open>catch\<close> logs and swallows. The upstream's answer carries
  \<open>result.items\<close>; a body without them counts as one that does not parse. A run starts
  from the store as it is, with an empty trace.
\<close>

definition checkNewTokens ::
  "(number \<Rightarrow> number \<Rightarrow> number) \<Rightarrow> (nat \<Rightarrow> bool) \<Rightarrow> HeliusToken list reply \<Rightarrow> kvstore \<Rightarrow> world" where
  "checkNewTokens mul send upstream store =
     (let w = emit (HttpFetch ''https://mainnet.helius-rpc.com'') \<lparr>kv = store, trace = []\<rparr>
      in case attempt upstream of
           Inl c \<Rightarrow> emit (LogError ''Token check error:'') w
         | Inr tokens \<Rightarrow>
             (case checkNewTokens_loop mul send tokens w of
                (None, w') \<Rightarrow> w'
              | (Some e, w') \<Rightarrow> emit (LogError ''Token check error:'') w'))"

section \<open>The webhook worker: swap transactions\<close>

text \<open>
  What \<open>await c.req.json()\<close> gives: an exception, or the parsed document.
\<close>

datatype body = Unparseable | Parsed jsval

text \<open>
  \<open>sendTelegramMessage(message, env)\<close> of the webhook worker: the request delay, then
  the \<open>fetch\<close> to the messaging API inside a \<open>try\<close> whose \<open>catch\<close> logs. The
  message is determined by the token address; the event also names the store key of the
  entity the alert is for. \<open>net n\<close> tells whether the send recorded at position \<open>n\<close>
  of the trace goes through (\<open>True\<close>) or fails (\<open>False\<close>: \<open>fetch\<close> or
  \<open>response.json()\<close> rejects).
\<close>

definition sendTelegramMessage :: "(nat \<Rightarrow> bool) \<Rightarrow> string \<Rightarrow> string \<Rightarrow> world \<Rightarrow> world" where
  "sendTelegramMessage net key address w =
     (let w1 = emit (Delay REQUEST_DELAY) w;
          w2 = emit (Alert key address) w1
      in if net (length (trace w1)) then w2
         else emit (LogError ''Error sending Telegram message:'') w2)"

text \<open>
  The part of the loop body before the store is consulted, which has no effect outside:
  the two \<open>continue\<close> tests, the default of \<open>tokenAddress\<close> (it applies to
  \<open>undefined\<close> only) and the store key
  \<open>`${PROCESSED_TRANSACTIONS}_${transaction.signature}`\<close>. \<open>Inl\<close> is an exception,
  \<open>Inr None\<close> a \<open>continue\<close>, \<open>Inr (Some (key, tokenAddress))\<close> a transaction
  that goes on to the store. \<open>and_then\<close> passes a value on and lets an exception
  through.
\<close>

definition and_then :: "error + 'a \<Rightarrow> ('a \<Rightarrow> error + 'b) \<Rightarrow> error + 'b" where
  "and_then m f = (case m of Inl e \<Rightarrow> Inl e | Inr x \<Rightarrow> f x)"

definition examine :: "coercions \<Rightarrow> jsval \<Rightarrow> error + (string \<times> jsval) option" where
  "examine co transaction =
     and_then (get_prop ''type'' transaction) (\<lambda>ty.
     if ty \<noteq> JStr ''SWAP'' then Inr None else
     and_then (get_prop ''platform'' transaction) (\<lambda>pf.
     if pf \<noteq> JStr ''Raydium'' then Inr None else
     and_then (get_prop ''events'' transaction) (\<lambda>events.
     let swapEvent = opt_prop ''swap'' events in
     if \<not> js_truthy swapEvent then Inr None else
     and_then (get_prop ''inAmount'' swapEvent) (\<lambda>inAmount.
     and_then (le_zero co inAmount) (\<lambda>nonpositive.
     if nonpositive then Inr None else
     and_then (get_prop ''tokenAddress'' swapEvent) (\<lambda>ta.
     and_then (get_prop ''signature'' transaction) (\<lambda>sg.
     and_then (js_toString co sg) (\<lambda>s.
     Inr (Some (PROCESSED_TRANSACTIONS @ ''_'' @ s,
                if ta = JUndefined then JStr ''Unknown Address'' else ta))))))))))"

text \<open>
  The \<open>for (const transaction of data)\<close> loop of the \<open>/webhook\<close> handler. The
  message interpolates the token address after the store has been read. The result is
  the exception that ended the loop, if any, and the world at that point.
\<close>

fun webhook_loop ::
  "coercions \<Rightarrow> (nat \<Rightarrow> bool) \<Rightarrow> jsval list \<Rightarrow> world \<Rightarrow> error option \<times> world" where
  "webhook_loop co net [] w = (None, w)"
| "webhook_loop co net (transaction # rest) w =
     (case examine co transaction of
        Inl e \<Rightarrow> (Some e, w)
      | Inr None \<Rightarrow> webhook_loop co net rest w
      | Inr (Some (key, tokenAddress)) \<Rightarrow>
          (case kv_get key w of
             (seen, w1) \<Rightarrow>
               if truthy seen then webhook_loop co net rest w1
               else
                 (case js_toString co tokenAddress of
                    Inl e \<Rightarrow> (Some e, w1)
                  | Inr address \<Rightarrow>
                      webhook_loop co net rest
                        (kv_put key ''processed'' (Some 3600)
                           (sendTelegramMessage net key address w1)))))"

text \<open>
  The \<open>/webhook\<close> handler: the \<open>Authorization\<close> header of the request (\<open>None\<close> when
  absent) against \<open>env.AUTH_TOKEN\<close> (\<open>None\<close> when unset), the body, the loop. The
  result is the HTTP status with the response text, or the exception that leaves the
  handler, and the world after the run.
\<close>

definition webhook ::
  "string option \<Rightarrow> string option \<Rightarrow> body \<Rightarrow> coercions \<Rightarrow> (nat \<Rightarrow> bool) \<Rightarrow> kvstore \<Rightarrow>
   (error + nat \<times> string) \<times> world" where
  "webhook header AUTH_TOKEN request co net store =
     (let w = \<lparr>kv = store, trace = []\<rparr>
      in if header \<noteq> AUTH_TOKEN then (Inr (401, ''Unauthorized''), w)
         else
           (case request of
              Unparseable \<Rightarrow> (Inr (400, ''Error processing webhook''), w)
            | Parsed data \<Rightarrow>
                (case data of
                   JArr txs \<Rightarrow>
                     if txs = [] then (Inr (200, ''No transactions to process''), w)
                     else
                       (case webhook_loop co net txs w of
                          (None, w') \<Rightarrow> (Inr (200, ''Webhook processed''), w')
                        | (Some e, w') \<Rightarrow> (Inl e, w'))
                 | _ \<Rightarrow> (Inr (200, ''No transactions to process''), w))))"

section \<open>The polling worker: the freshness cache\<close>

text \<open>
  Timestamps are \<open>Date.now()\<close>, milliseconds; differences may be negative.
  \<open>global_c\<close> is the optional field \<open>global\<close> of the cache object.
\<close>

record CacheData =
  data :: jsval
  lastUpdated :: int

record cache =
  global_c :: "CacheData option"
  ticker :: "string \<rightharpoonup> CacheData"
  coinPaprika :: CacheData

text \<open>\<open>{ ticker: {}, coinPaprika: { data: null, lastUpdated: 0 } }\<close>\<close>

definition initial_cache :: cache where
  "initial_cache = \<lparr>global_c = None, ticker = Map.empty,
                     coinPaprika = \<lparr>data = JNull, lastUpdated = 0\<rparr>\<rparr>"

text \<open>
  What a command handler does towards the outside: it calls an upstream, answers the
  chat with a formatted message, or answers with a fixed notice (named here by its text
  without the leading pictograph). \<open>sendMessage\<close> itself never throws.
\<close>

datatype action = Fetched string | Answered string | Notice string

definition fetches :: "action list \<Rightarrow> nat" where
  "fetches outs = length (filter (\<lambda>e. case e of Fetched k \<Rightarrow> True | _ \<Rightarrow> False) outs)"

text \<open>
  The symbol branch of \<open>handleInfoCommand\<close>, from the cache test on. \<open>s\<close> is the
  upper-cased input \<open>symbol\<close>, \<open>now\<close> the clock at the test, \<open>fetched\<close> what
  \<open>fetchCMCQuote\<close> gives (an exception or the quote), \<open>now'\<close> the clock when the
  entry is written. \<open>formatCMCInfo\<close> is a parameter: it gives the message, or throws
  (on a payload without the fields it reads). No \<open>try\<close> surrounds this branch: an
  exception of the fetch leaves the handler before the write, one of the formatting
  after it.
  \<open>fresh_entry\<close> is the test
  \<open>cache.ticker[symbol] && Date.now() - cache.ticker[symbol].lastUpdated < 300000\<close>;
  an upper-cased symbol is never a name that the prototype of the \<open>ticker\<close> object
  defines, so the lookup finds what was stored under it and nothing else.
\<close>

definition fresh_entry :: "cache \<Rightarrow> string \<Rightarrow> int \<Rightarrow> CacheData option" where
  "fresh_entry c s now =
     (case ticker c s of
        None \<Rightarrow> None
      | Some e \<Rightarrow> if now - lastUpdated e < 300000 then Some e else None)"

definition handleInfoCommand_symbol ::
  "(jsval \<Rightarrow> error + string) \<Rightarrow> string \<Rightarrow> int \<Rightarrow> error + jsval \<Rightarrow> int \<Rightarrow> cache \<Rightarrow>
   (error + unit) \<times> cache \<times> action list" where
  "handleInfoCommand_symbol formatCMCInfo s now fetched now' c =
     (case fresh_entry c s now of
        Some e \<Rightarrow>
          (case formatCMCInfo (data e) of
             Inl err \<Rightarrow> (Inl err, c, [])
           | Inr message \<Rightarrow> (Inr (), c, [Answered message]))
      | None \<Rightarrow>
          (case fetched of
             Inl err \<Rightarrow> (Inl err, c, [Fetched s])
           | Inr d \<Rightarrow>
               (let c' = c\<lparr>ticker := (ticker c)(s \<mapsto> \<lparr>data = d, lastUpdated = now'\<rparr>)\<rparr>
                in case formatCMCInfo d of
                     Inl err \<Rightarrow> (Inl err, c', [Fetched s])
                   | Inr message \<Rightarrow> (Inr (), c', [Fetched s, Answered message]))))"

text \<open>
  \<open>handleTickerCommand\<close>, from the cache test on. \<open>fetched\<close> is what
  \<open>fetchCoinPaprikaPrices\<close> gives: an exception, or the array of tickers.
  \<open>formatCoinPaprikaData\<close> (with the search term) is a parameter; it catches its own
  exceptions and always gives a message. The surrounding \<open>catch\<close> answers with a
  notice and swallows the exception of the fetch.
\<close>

definition handleTickerCommand_search ::
  "(jsval \<Rightarrow> string) \<Rightarrow> int \<Rightarrow> error + jsval list \<Rightarrow> int \<Rightarrow> cache \<Rightarrow> cache \<times> action list" where
  "handleTickerCommand_search formatCoinPaprikaData now fetched now' c =
     (if js_truthy (data (coinPaprika c)) \<and> now - lastUpdated (coinPaprika c) < 300000
      then (c, [Answered (formatCoinPaprikaData (data (coinPaprika c)))])
      else
        (case fetched of
           Inl err \<Rightarrow>
             (c, [Notice ''Fetching tickers data...'', Fetched ''coinPaprika'',
                  Notice ''Failed to fetch cryptocurrency data. Please try again later.''])
         | Inr tickers \<Rightarrow>
             (c\<lparr>coinPaprika := \<lparr>data = JArr tickers, lastUpdated = now'\<rparr>\<rparr>,
              [Notice ''Fetching tickers data...'', Fetched ''coinPaprika'',
               Answered (formatCoinPaprikaData (JArr tickers))])))"

text \<open>
  \<open>handleGlobalCommand\<close> without an exchange name, from the cache test on.
  \<open>fetched\<close> is what \<open>fetchCMCGlobal\<close> gives; \<open>formatCMCGlobal\<close> is a
  parameter that catches its own exceptions. The surrounding \<open>catch\<close> answers with a
  notice.
\<close>

definition handleGlobalCommand_overview ::
  "(jsval \<Rightarrow> string) \<Rightarrow> int \<Rightarrow> error + jsval \<Rightarrow> int \<Rightarrow> cache \<Rightarrow> cache \<times> action list" where
  "handleGlobalCommand_overview formatCMCGlobal now fetched now' c =
     (case (case global_c c of
              None \<Rightarrow> None
            | Some e \<Rightarrow> if now - lastUpdated e < 300000 then Some e else None) of
        Some e \<Rightarrow> (c, [Answered (formatCMCGlobal (data e))])
      | None \<Rightarrow>
          (case fetched of
             Inl err \<Rightarrow>
               (c, [Fetched ''global'',
                    Notice ''Failed to fetch exchange data. Please check the exchange name and try again.''])
           | Inr d \<Rightarrow>
               (c\<lparr>global_c := Some \<lparr>data = d, lastUpdated = now'\<rparr>\<rparr>,
                [Fetched ''global'', Answered (formatCMCGlobal d)])))"

section \<open>Orderings of marks and alerts in a trace\<close>

text \<open>
  Mark-then-alert: every alert send comes after a \<open>put\<close> for the same key.
  \<open>marked\<close> collects the keys written so far.
\<close>

fun mark_then_alert :: "string list \<Rightarrow> event list \<Rightarrow> bool" where
  "mark_then_alert marked [] = True"
| "mark_then_alert marked (KvPut k v ttl # es) = mark_then_alert (k # marked) es"
| "mark_then_alert marked (Alert k a # es) = (k \<in> set marked \<and> mark_then_alert marked es)"
| "mark_then_alert marked (e # es) = mark_then_alert marked es"

text \<open>
  Alert-then-mark: every \<open>put\<close> comes after an alert send for the same key.
  \<open>alerted\<close> collects the keys alerted so far.
\<close>

fun alert_then_mark :: "string list \<Rightarrow> event list \<Rightarrow> bool" where
  "alert_then_mark alerted [] = True"
| "alert_then_mark alerted (Alert k a # es) = alert_then_mark (k # alerted) es"
| "alert_then_mark alerted (KvPut k v ttl # es) = (k \<in> set alerted \<and> alert_then_mark alerted es)"
| "alert_then_mark alerted (e # es) = alert_then_mark alerted es"

section \<open>Vocabulary of the statements\<close>

text \<open>
  The event filter of the \<open>/webhook\<close> loop, in words: an element that is not
  \<open>null\<close> is left out when its \<open>type\<close> is not the string \<open>SWAP\<close>, its
  \<open>platform\<close> is not the string \<open>Raydium\<close>, its \<open>events?.swap\<close> is falsy, or
  \<open>inAmount <= 0\<close> holds of its swap event.
\<close>

definition filtered_out :: "coercions \<Rightarrow> jsval \<Rightarrow> bool" where
  "filtered_out co tx \<longleftrightarrow>
     tx \<noteq> JNull \<and> tx \<noteq> JUndefined \<and>
     (own_prop ''type'' tx \<noteq> JStr ''SWAP''
      \<or> own_prop ''platform'' tx \<noteq> JStr ''Raydium''
      \<or> \<not> js_truthy (own_prop ''swap'' (own_prop ''events'' tx))
      \<or> le_zero co (own_prop ''inAmount'' (own_prop ''swap'' (own_prop ''events'' tx))) = Inr True)"


definition is_put :: "event \<Rightarrow> bool" where
  "is_put e = (case e of KvPut k v ttl \<Rightarrow> True | _ \<Rightarrow> False)"

text \<open>The alert sends of a trace, in order.\<close>

definition alerts :: "event list \<Rightarrow> event list" where
  "alerts evs = filter (\<lambda>e. case e of Alert k a \<Rightarrow> True | _ \<Rightarrow> False) evs"

section \<open>Example inputs\<close>

text \<open>
  Upstreams: one that is never reached, one that always answers with a body that does
  not parse, one whose first answer does not parse, one that fails in two ways, one that
  answers 404.
\<close>

definition unreachable :: "nat \<Rightarrow> nat reply" where "unreachable i = Rejected"
definition malformed :: "nat \<Rightarrow> nat reply" where "malformed i = Reply 200 None"
definition malformed_first :: "nat \<Rightarrow> nat reply" where
  "malformed_first i = (if i = 0 then Reply 200 None else Reply 200 (Some 7))"
definition flaky :: "nat \<Rightarrow> nat reply" where
  "flaky i = (if i = 1 then Reply 503 None else Rejected)"
definition not_found :: "nat \<Rightarrow> nat reply" where "not_found i = Reply 404 None"

text \<open>
  Message sends: all go through, none does, or the one recorded at position \<open>m\<close> of
  the trace does not.
\<close>

definition delivers :: "nat \<Rightarrow> bool" where "delivers n = True"
definition throws :: "nat \<Rightarrow> bool" where "throws n = False"
definition send_fails_at :: "nat \<Rightarrow> nat \<Rightarrow> bool" where "send_fails_at m n = (n \<noteq> m)"

text \<open>
  A multiplication that is exact on finite numbers, except at one pair where the product
  of the doubles rounds up to the threshold: 17 times 5882.35294117647.
\<close>

fun exact_mul :: "number \<Rightarrow> number \<Rightarrow> number" where
  "exact_mul (Finite a) (Finite b) = Finite (a * b)"
| "exact_mul a b = PosInfinity"

definition rounding_mul :: "number \<Rightarrow> number \<Rightarrow> number" where
  "rounding_mul a b =
     (if a = Finite 17 \<and> b = Finite (588235294117647 / 100000000000) then Finite 100000
      else exact_mul a b)"

text \<open>
  Tokens with a market cap of exactly 100000 (\<open>A\<close>, \<open>B\<close>, \<open>C\<close>), of 99999.99, and
  the one whose product rounds to 100000.
\<close>

definition token_of :: "string \<Rightarrow> rat \<Rightarrow> rat \<Rightarrow> HeliusToken" where
  "token_of i s p =
     \<lparr>id_tok = i, name = i, symbol = i,
      price_info = Some \<lparr>price_per_token = Finite p, total_price = Finite p\<rparr>,
      token_info = Some \<lparr>supply_tok = Finite s\<rparr>\<rparr>"

definition tokenA :: HeliusToken where "tokenA = token_of ''A'' 1000 100"
definition tokenB :: HeliusToken where "tokenB = token_of ''B'' 1000 100"
definition tokenC :: HeliusToken where "tokenC = token_of ''C'' 1000 100"
definition tokenLow :: HeliusToken where "tokenLow = token_of ''L'' (9999999 / 100) 1"
definition tokenEdge :: HeliusToken where
  "tokenEdge = token_of ''E'' 17 (588235294117647 / 100000000000)"

text \<open>
  Conversions that are never called on the examples below. A Raydium swap with a given
  signature, token address and amount, and one whose swap event has no \<open>inAmount\<close>.
\<close>

definition no_le :: "jsval \<Rightarrow> error + bool" where "no_le v = Inl TypeError"
definition no_string :: "jsval \<Rightarrow> error + string" where "no_string v = Inl TypeError"
definition plain :: coercions where "plain = \<lparr>le_zero_of = no_le, string_of = no_string\<rparr>"

definition raydium_swap :: "string \<Rightarrow> string \<Rightarrow> rat \<Rightarrow> jsval" where
  "raydium_swap sg addr amount =
     JObj [(''type'', JStr ''SWAP''), (''platform'', JStr ''Raydium''),
           (''events'', JObj [(''swap'', JObj [(''inAmount'', JNum (Finite amount)),
                                               (''tokenAddress'', JStr addr)])]),
           (''signature'', JStr sg)]"

definition swap_without_amount :: "string \<Rightarrow> string \<Rightarrow> jsval" where
  "swap_without_amount sg addr =
     JObj [(''type'', JStr ''SWAP''), (''platform'', JStr ''Raydium''),
           (''events'', JObj [(''swap'', JObj [(''tokenAddress'', JStr addr)])]),
           (''signature'', JStr sg)]"

text \<open>Formatters: one that always gives a message, one that always throws.\<close>

definition format_ok :: "jsval \<Rightarrow> error + string" where "format_ok v = Inr ''info''"
definition format_throws :: "jsval \<Rightarrow> error + string" where "format_throws v = Inl TypeError"
definition format_list :: "jsval \<Rightarrow> string" where "format_list v = ''list''"

section \<open>Properties of the retry executor\<close>

lemma show_MAX_RETRIES: "show_nat MAX_RETRIES = ''3''"
  by (simp add: show_nat.simps MAX_RETRIES_def digit_def)

lemma loop_done:
  "\<not> i < retries \<Longrightarrow> fetchWithRetry_loop url net retries i = (Inl (Error (''Failed to fetch '' @ url @ '' after 3 retries'')), [])"
  by (simp add: fetchWithRetry_loop.simps show_MAX_RETRIES)

lemma loop_success:
  "i < retries \<Longrightarrow> attempt (net i) = Inr j \<Longrightarrow> fetchWithRetry_loop url net retries i = (Inr j, [HttpFetch url])"
  by (subst fetchWithRetry_loop.simps) simp

lemma loop_failure:
  "i < retries \<Longrightarrow> attempt (net i) = Inl c \<Longrightarrow>
   fetchWithRetry_loop url net retries i =
     (fst (fetchWithRetry_loop url net retries (Suc i)),
      HttpFetch url # LogFetchError (Suc i) c # Delay RETRY_DELAY #
      snd (fetchWithRetry_loop url net retries (Suc i)))"
  by (subst fetchWithRetry_loop.simps) (simp split: prod.splits)

lemma attempts_simps:
  "attempts [] = 0"
  "attempts (HttpFetch u # evs) = Suc (attempts evs)"
  "attempts (LogFetchError n c # evs) = attempts evs"
  "attempts (Delay d # evs) = attempts evs"
  by (simp_all add: attempts_def)

lemma loop_exhausts:
  "(\<And>k. i \<le> k \<Longrightarrow> k < retries \<Longrightarrow> \<exists>c. attempt (net k) = Inl c) \<Longrightarrow>
   fst (fetchWithRetry_loop url net retries i) = Inl (Error (''Failed to fetch '' @ url @ '' after 3 retries''))
   \<and> attempts (snd (fetchWithRetry_loop url net retries i)) = retries - i"
proof (induction url net retries i rule: fetchWithRetry_loop.induct)
  case (1 url net retries i)
  show ?case
  proof (cases "i < retries")
    case False
    then show ?thesis by (simp add: loop_done attempts_simps)
  next
    case True
    from "1.prems"[of i] True obtain c where c: "attempt (net i) = Inl c" by auto
    have "\<And>k. Suc i \<le> k \<Longrightarrow> k < retries \<Longrightarrow> \<exists>c. attempt (net k) = Inl c"
      using "1.prems" by simp
    with "1.IH"[OF True c] have ih:
      "fst (fetchWithRetry_loop url net retries (Suc i)) = Inl (Error (''Failed to fetch '' @ url @ '' after 3 retries''))"
      "attempts (snd (fetchWithRetry_loop url net retries (Suc i))) = retries - Suc i"
      by auto
    show ?thesis using True ih c by (simp add: loop_failure[where c=c] attempts_simps)
  qed
qed

text \<open>
  C3 (retry exhaustion). When each of the three attempts fails, whatever the cause,
  \<open>fetchWithRetry\<close> with a budget of 3 calls \<open>fetch\<close> exactly three times, one after
  the other, logs each failure and waits \<open>RETRY_DELAY\<close> after it (also after the last
  one), and then throws; it returns no value.
\<close>

theorem retry_exhaustion:
  assumes "attempt (net 0) = Inl c0" and "attempt (net 1) = Inl c1" and "attempt (net 2) = Inl c2"
  shows "fetchWithRetry url net 3 =
      (Inl (Error (''Failed to fetch '' @ url @ '' after 3 retries'')),
       [HttpFetch url, LogFetchError 1 c0, Delay 1000,
        HttpFetch url, LogFetchError 2 c1, Delay 1000,
        HttpFetch url, LogFetchError 3 c2, Delay 1000])
    \<and> attempts (snd (fetchWithRetry url net 3)) = 3
    \<and> (\<forall>j. fst (fetchWithRetry url net 3) \<noteq> Inr j)"
proof -
  have c: "attempt (net 0) = Inl c0" "attempt (net (Suc 0)) = Inl c1" "attempt (net (Suc (Suc 0))) = Inl c2"
    using assms by (simp_all add: eval_nat_numeral)
  let ?msg = "Inl (Error (''Failed to fetch '' @ url @ '' after 3 retries''))"
  have s3: "fetchWithRetry_loop url net 3 (Suc (Suc (Suc 0))) = (?msg, [])"
    by (rule loop_done) simp
  have s2: "fetchWithRetry_loop url net 3 (Suc (Suc 0)) =
      (?msg, [HttpFetch url, LogFetchError 3 c2, Delay 1000])"
    using c(3) by (simp add: loop_failure[where c=c2] s3 RETRY_DELAY_def)
  have s1: "fetchWithRetry_loop url net 3 (Suc 0) =
      (?msg, [HttpFetch url, LogFetchError 2 c1, Delay 1000,
              HttpFetch url, LogFetchError 3 c2, Delay 1000])"
    using c(2) by (simp add: loop_failure[where c=c1] s2 RETRY_DELAY_def)
  have "fetchWithRetry url net 3 =
      (?msg, [HttpFetch url, LogFetchError 1 c0, Delay 1000,
        HttpFetch url, LogFetchError 2 c1, Delay 1000,
        HttpFetch url, LogFetchError 3 c2, Delay 1000])"
    unfolding fetchWithRetry_def
    using c(1) by (simp add: loop_failure[where c=c0] s1 RETRY_DELAY_def)
  then show ?thesis by (auto simp: attempts_simps)
qed

theorem retry_exhaustion_witness:
  "fetchWithRetry ''u'' flaky 3 =
      (Inl (Error ''Failed to fetch u after 3 retries''),
       [HttpFetch ''u'', LogFetchError 1 NetworkFailure, Delay 1000,
        HttpFetch ''u'', LogFetchError 2 (HttpError 503), Delay 1000,
        HttpFetch ''u'', LogFetchError 3 NetworkFailure, Delay 1000])"
  using retry_exhaustion [of flaky
      NetworkFailure "HttpError 503" NetworkFailure "''u''"]
  by (simp add: ok_def flaky_def)


lemma loop_cause_irrelevant:
  assumes "\<And>k. map_sum (\<lambda>c. ()) id (attempt (net k)) = map_sum (\<lambda>c. ()) id (attempt (net' k))"
  shows "fst (fetchWithRetry_loop url net retries i) = fst (fetchWithRetry_loop url net' retries i)
       \<and> attempts (snd (fetchWithRetry_loop url net retries i)) =
         attempts (snd (fetchWithRetry_loop url net' retries i))"
  using assms
proof (induction url net retries i rule: fetchWithRetry_loop.induct)
  case (1 url net retries i)
  show ?case
  proof (cases "i < retries")
    case False
    then show ?thesis by (simp add: loop_done)
  next
    case True
    show ?thesis
    proof (cases "attempt (net i)")
      case (Inr j)
      with "1.prems"[of i] have "attempt (net' i) = Inr j"
        by (cases "attempt (net' i)") simp_all
      with Inr True show ?thesis by (simp add: loop_success)
    next
      case (Inl c)
      with "1.prems"[of i] obtain c' where c': "attempt (net' i) = Inl c'"
        by (cases "attempt (net' i)") simp_all
      from "1.IH"[OF True Inl] "1.prems"
      have "fst (fetchWithRetry_loop url net retries (Suc i)) = fst (fetchWithRetry_loop url net' retries (Suc i))
       \<and> attempts (snd (fetchWithRetry_loop url net retries (Suc i))) =
         attempts (snd (fetchWithRetry_loop url net' retries (Suc i)))"
        by blast
      then show ?thesis using True Inl c'
        by (simp add: loop_failure[where c=c] loop_failure[where c=c'] attempts_simps)
    qed
  qed
qed

lemma loop_logs:
  "i \<le> k \<Longrightarrow> k < retries \<Longrightarrow> attempt (net k) = Inl c \<Longrightarrow>
   (\<And>m. i \<le> m \<Longrightarrow> m < k \<Longrightarrow> \<exists>c'. attempt (net m) = Inl c') \<Longrightarrow>
   LogFetchError (Suc k) c \<in> set (snd (fetchWithRetry_loop url net retries i))"
proof (induction url net retries i rule: fetchWithRetry_loop.induct)
  case (1 url net retries i)
  from "1.prems" have lt: "i < retries" by simp
  show ?case
  proof (cases "i = k")
    case True
    with "1.prems" lt show ?thesis by (simp add: loop_failure[where c=c])
  next
    case False
    with "1.prems" have ik: "i < k" by simp
    with "1.prems"(4)[of i] obtain c' where c': "attempt (net i) = Inl c'" by auto
    have "LogFetchError (Suc k) c \<in> set (snd (fetchWithRetry_loop url net retries (Suc i)))"
      using "1.IH"[OF lt c'] "1.prems" ik by simp
    then show ?thesis using lt c' by (simp add: loop_failure[where c=c'])
  qed
qed

text \<open>
  C4 as stated fails: a body that does not parse is an exception inside the \<open>try\<close>
  block like any other, so the loop logs it, waits and fetches again. Here the second
  attempt succeeds and the caller never sees the malformed first answer.
\<close>

theorem malformed_not_retried_counterexample:
  "fetchWithRetry ''u'' malformed_first 3 =
     (Inr 7, [HttpFetch ''u'', LogFetchError 1 ParseFailure, Delay 1000, HttpFetch ''u''])"
  by (simp add: fetchWithRetry_def loop_failure[where c=ParseFailure] loop_success[where j=7]
      ok_def RETRY_DELAY_def malformed_first_def)

text \<open>
  C4, amended. A malformed answer (success status, unparseable body) at any attempt
  within the budget is retried: the attempt is logged with cause \<open>ParseFailure\<close>, the
  delay follows, and the loop goes on with the next index. It uses up one attempt exactly
  as a rejected \<open>fetch\<close> at the same position would: the outcome and the number of
  attempts are the same.
\<close>

theorem malformed_response_retried:
  assumes "i < retries" and "ok status" and "net i = Reply status None"
  shows "fetchWithRetry_loop url net retries i =
           (fst (fetchWithRetry_loop url net retries (Suc i)),
            HttpFetch url # LogFetchError (i + 1) ParseFailure # Delay RETRY_DELAY #
            snd (fetchWithRetry_loop url net retries (Suc i)))
       \<and> fst (fetchWithRetry url net retries) = fst (fetchWithRetry url (net(i := Rejected)) retries)
       \<and> attempts (snd (fetchWithRetry url net retries)) =
         attempts (snd (fetchWithRetry url (net(i := Rejected)) retries))"
proof -
  have a: "attempt (net i) = Inl ParseFailure" using assms by simp
  have eq: "map_sum (\<lambda>c. ()) id (attempt (net k)) =
            map_sum (\<lambda>c. ()) id (attempt ((net(i := Rejected)) k))" for k
    using a by simp
  have step: "fetchWithRetry_loop url net retries i =
           (fst (fetchWithRetry_loop url net retries (Suc i)),
            HttpFetch url # LogFetchError (i + 1) ParseFailure # Delay RETRY_DELAY #
            snd (fetchWithRetry_loop url net retries (Suc i)))"
    using a assms(1) by (simp add: loop_failure[where c=ParseFailure])
  from loop_cause_irrelevant[of net "net(i := Rejected)" url retries 0, OF eq] step
  show ?thesis unfolding fetchWithRetry_def by blast
qed

theorem malformed_response_retried_witness:
  "fetchWithRetry_loop ''u'' malformed 3 0 =
           (fst (fetchWithRetry_loop ''u'' malformed 3 (Suc 0)),
            HttpFetch ''u'' # LogFetchError 1 ParseFailure # Delay 1000 #
            snd (fetchWithRetry_loop ''u'' malformed 3 (Suc 0)))
   \<and> attempts (snd (fetchWithRetry ''u'' malformed 3)) = 3"
proof -
  have l: "(0::nat) < 3" and o: "ok 200" by (simp_all add: ok_def)
  have r: "\<forall>i<3. \<exists>c. attempt (malformed i) = Inl c" by (simp add: ok_def malformed_def)
  have "attempts (snd (fetchWithRetry ''u'' malformed 3)) = 3"
    unfolding fetchWithRetry_def using loop_exhausts[of 0 3 malformed "''u''"] r
    by simp
  with malformed_response_retried [OF l o, of malformed "''u''"]
  show ?thesis by (simp add: RETRY_DELAY_def malformed_def)
qed

text \<open>
  C5 as stated fails: an upstream that is never reachable and one that always answers
  with an unparseable body end in the same error value, which carries no cause.
\<close>

theorem failure_cause_retained_counterexample:
  "fst (fetchWithRetry ''u'' unreachable 3) =
   fst (fetchWithRetry ''u'' malformed 3)
   \<and> fst (fetchWithRetry ''u'' unreachable 3) =
     Inl (Error ''Failed to fetch u after 3 retries'')"
proof -
  have "fst (fetchWithRetry ''u'' unreachable 3) = Inl (Error ''Failed to fetch u after 3 retries'')"
    unfolding fetchWithRetry_def using loop_exhausts[of 0 3 unreachable "''u''"]
    by (simp add: unreachable_def)
  moreover
  have "fst (fetchWithRetry ''u'' malformed 3) = Inl (Error ''Failed to fetch u after 3 retries'')"
    unfolding fetchWithRetry_def using loop_exhausts[of 0 3 malformed "''u''"]
    by (simp add: ok_def malformed_def)
  ultimately show ?thesis by simp
qed

text \<open>
  C5, amended. When every attempt within the budget fails, the error thrown is
  \<open>Failed to fetch <url> after 3 retries\<close>: it names the URL and the constant
  \<open>MAX_RETRIES\<close>, whatever the budget and the causes were. The cause of each failed
  attempt goes to the console log only.
\<close>

theorem exhaustion_error_names_url_only:
  assumes "\<forall>i<retries. \<exists>c. attempt (net i) = Inl c"
  shows "fst (fetchWithRetry url net retries) =
           Inl (Error (''Failed to fetch '' @ url @ '' after 3 retries''))
       \<and> (\<forall>i<retries. \<forall>c. attempt (net i) = Inl c \<longrightarrow>
             LogFetchError (i + 1) c \<in> set (snd (fetchWithRetry url net retries)))"
proof -
  have "fst (fetchWithRetry url net retries) =
           Inl (Error (''Failed to fetch '' @ url @ '' after 3 retries''))"
    unfolding fetchWithRetry_def using loop_exhausts[of 0 retries net url] assms by simp
  moreover have "LogFetchError (i + 1) c \<in> set (snd (fetchWithRetry url net retries))"
    if "i < retries" "attempt (net i) = Inl c" for i c
    unfolding fetchWithRetry_def using loop_logs[of 0 i retries net c url] that assms by simp
  ultimately show ?thesis by blast
qed

theorem exhaustion_error_names_url_only_witness:
  "fst (fetchWithRetry ''u'' not_found 2) =
           Inl (Error ''Failed to fetch u after 3 retries'')
   \<and> LogFetchError 2 (HttpError 404) \<in> set (snd (fetchWithRetry ''u'' not_found 2))"
proof -
  have h: "\<forall>i<2. \<exists>c. attempt (not_found i) = Inl c"
    by (simp add: ok_def not_found_def)
  note t = exhaustion_error_names_url_only [of 2 not_found "''u''", OF h]
  from t have "LogFetchError (1 + 1) (HttpError 404)
      \<in> set (snd (fetchWithRetry ''u'' not_found 2))"
    by (simp add: ok_def not_found_def)
  with t show ?thesis by (simp add: numeral_2_eq_2)
qed

section \<open>Properties of the two alert loops\<close>

subsection \<open>The store and the senders, one call at a time\<close>

lemma emit_simps [simp]: "trace (emit e w) = trace w @ [e]" "kv (emit e w) = kv w"
  by (simp_all add: emit_def)

lemma kv_get_simps [simp]:
  "fst (kv_get key w) = map_option fst (kv w key)"
  "snd (kv_get key w) = emit (KvGet key) w"
  by (simp_all add: kv_get_def)

lemma kv_put_simps [simp]:
  "trace (kv_put key v ttl w) = trace w @ [KvPut key v ttl]"
  "kv (kv_put key v ttl w) = (kv w)(key \<mapsto> (v, ttl))"
  by (simp_all add: kv_put_def)

lemma sendAlert_simps [simp]:
  "fst (sendAlert send token w) = (if send (length (trace w)) then None else Some (Error ''sendTelegramMessage''))"
  "snd (sendAlert send token w) = emit (Alert (id_tok token) (id_tok token)) w"
  by (simp_all add: sendAlert_def Let_def)

lemma sendTelegramMessage_simps [simp]:
  "kv (sendTelegramMessage net key address w) = kv w"
  "trace (sendTelegramMessage net key address w) =
     trace w @ Delay REQUEST_DELAY # Alert key address #
       (if net (Suc (length (trace w))) then [] else [LogError ''Error sending Telegram message:''])"
  by (simp_all add: sendTelegramMessage_def Let_def)

text \<open>One step of each loop, as an equation on the rest of the batch.\<close>

lemma tokens_step_below:
  "\<not> number_ge (marketCap mul token) 100000 \<Longrightarrow>
   checkNewTokens_loop mul send (token # tokens) w = checkNewTokens_loop mul send tokens w"
  by simp

lemma tokens_step_tracked:
  "number_ge (marketCap mul token) 100000 \<Longrightarrow> truthy (map_option fst (kv w (id_tok token))) \<Longrightarrow>
   checkNewTokens_loop mul send (token # tokens) w =
     checkNewTokens_loop mul send tokens (emit (KvGet (id_tok token)) w)"
  by (simp add: kv_get_def)

lemma tokens_step_new_sent:
  "number_ge (marketCap mul token) 100000 \<Longrightarrow> \<not> truthy (map_option fst (kv w (id_tok token))) \<Longrightarrow>
   send (Suc (length (trace w))) \<Longrightarrow>
   checkNewTokens_loop mul send (token # tokens) w =
     checkNewTokens_loop mul send tokens
       (kv_put (id_tok token) ''tracked'' None
          (emit (Alert (id_tok token) (id_tok token)) (emit (KvGet (id_tok token)) w)))"
  by (simp add: kv_get_def sendAlert_def Let_def)

lemma tokens_step_new_thrown:
  "number_ge (marketCap mul token) 100000 \<Longrightarrow> \<not> truthy (map_option fst (kv w (id_tok token))) \<Longrightarrow>
   \<not> send (Suc (length (trace w))) \<Longrightarrow>
   checkNewTokens_loop mul send (token # tokens) w =
     (Some (Error ''sendTelegramMessage''),
      emit (Alert (id_tok token) (id_tok token)) (emit (KvGet (id_tok token)) w))"
  by (simp add: kv_get_def sendAlert_def Let_def)

lemma webhook_step_throws:
  "examine co tx = Inl e \<Longrightarrow> webhook_loop co net (tx # rest) w = (Some e, w)"
  by simp

lemma webhook_step_skipped:
  "examine co tx = Inr None \<Longrightarrow> webhook_loop co net (tx # rest) w = webhook_loop co net rest w"
  by simp

lemma webhook_step_seen:
  "examine co tx = Inr (Some (key, ta)) \<Longrightarrow> truthy (map_option fst (kv w key)) \<Longrightarrow>
   webhook_loop co net (tx # rest) w = webhook_loop co net rest (emit (KvGet key) w)"
  by (simp add: kv_get_def)

lemma webhook_step_unprintable:
  "examine co tx = Inr (Some (key, ta)) \<Longrightarrow> \<not> truthy (map_option fst (kv w key)) \<Longrightarrow>
   js_toString co ta = Inl e \<Longrightarrow>
   webhook_loop co net (tx # rest) w = (Some e, emit (KvGet key) w)"
  by (simp add: kv_get_def)

lemma webhook_step_new:
  "examine co tx = Inr (Some (key, ta)) \<Longrightarrow> \<not> truthy (map_option fst (kv w key)) \<Longrightarrow>
   js_toString co ta = Inr a \<Longrightarrow>
   webhook_loop co net (tx # rest) w =
     webhook_loop co net rest
       (kv_put key ''processed'' (Some 3600)
          (sendTelegramMessage net key a (emit (KvGet key) w)))"
  by (simp add: kv_get_def)

declare checkNewTokens_loop.simps(2) [simp del] webhook_loop.simps(2) [simp del]

lemma tokens_cases:
  obtains (below) "\<not> number_ge (marketCap mul token) 100000"
  | (tracked) "number_ge (marketCap mul token) 100000" "truthy (map_option fst (kv w (id_tok token)))"
  | (sent) "number_ge (marketCap mul token) 100000" "\<not> truthy (map_option fst (kv w (id_tok token)))"
      "send (Suc (length (trace w)))"
  | (thrown) "number_ge (marketCap mul token) 100000" "\<not> truthy (map_option fst (kv w (id_tok token)))"
      "\<not> send (Suc (length (trace w)))"
  by blast

lemma webhook_cases:
  obtains (throws) e where "examine co tx = Inl e"
  | (skipped) "examine co tx = Inr None"
  | (seen) key ta where "examine co tx = Inr (Some (key, ta))" "truthy (map_option fst (kv w key))"
  | (unprintable) key ta e where "examine co tx = Inr (Some (key, ta))"
      "\<not> truthy (map_option fst (kv w key))" "js_toString co ta = Inl e"
  | (new) key ta a where "examine co tx = Inr (Some (key, ta))"
      "\<not> truthy (map_option fst (kv w key))" "js_toString co ta = Inr a"
proof (cases "examine co tx")
  case (Inl e)
  then show ?thesis by (rule throws)
next
  case (Inr r)
  show ?thesis
  proof (cases r)
    case None
    with Inr show ?thesis by (intro skipped) simp
  next
    case (Some p)
    obtain key ta where p: "p = (key, ta)" by (cases p)
    show ?thesis
    proof (cases "truthy (map_option fst (kv w key))")
      case True
      with Inr Some p show ?thesis by (intro seen) simp_all
    next
      case False
      show ?thesis
      proof (cases "js_toString co ta")
        case (Inl e)
        with Inr Some p False show ?thesis by (intro unprintable) simp_all
      next
        case (Inr a)
        with \<open>examine co tx = Inr r\<close> Some p False show ?thesis by (intro new) simp_all
      qed
    qed
  qed
qed

subsection \<open>The loop over a batch cut in two\<close>

lemma tokens_append:
  "checkNewTokens_loop mul send (pre @ rest) w =
     (case checkNewTokens_loop mul send pre w of
        (Some e, w') \<Rightarrow> (Some e, w')
      | (None, w') \<Rightarrow> checkNewTokens_loop mul send rest w')"
proof (induction pre arbitrary: w)
  case Nil
  then show ?case by simp
next
  case (Cons t pre)
  show ?case
  proof (cases rule: tokens_cases[where token=t and w=w and send=send and mul=mul])
    case below
    then show ?thesis using Cons by (simp add: tokens_step_below)
  next
    case tracked
    then show ?thesis using Cons by (simp add: tokens_step_tracked)
  next
    case sent
    then show ?thesis using Cons by (simp add: tokens_step_new_sent)
  next
    case thrown
    then show ?thesis by (simp add: tokens_step_new_thrown)
  qed
qed

lemma webhook_append:
  "webhook_loop co net (pre @ rest) w =
     (case webhook_loop co net pre w of
        (Some e, w') \<Rightarrow> (Some e, w')
      | (None, w') \<Rightarrow> webhook_loop co net rest w')"
proof (induction pre arbitrary: w)
  case Nil
  then show ?case by simp
next
  case (Cons t pre)
  show ?case
  proof (cases rule: webhook_cases[where tx=t and w=w and co=co])
    case throws
    then show ?thesis by (simp add: webhook_step_throws)
  next
    case skipped
    then show ?thesis using Cons by (simp add: webhook_step_skipped)
  next
    case seen
    then show ?thesis using Cons by (simp add: webhook_step_seen)
  next
    case unprintable
    then show ?thesis by (simp add: webhook_step_unprintable)
  next
    case new
    then show ?thesis using Cons by (simp add: webhook_step_new)
  qed
qed

subsection \<open>Dropping an entity that does not pass the filter\<close>

lemma tokens_drop_below:
  "\<not> number_ge (marketCap mul token) 100000 \<Longrightarrow>
   checkNewTokens_loop mul send (pre @ token # rest) w = checkNewTokens_loop mul send (pre @ rest) w"
  by (simp add: tokens_append[of mul send pre "token # rest"] tokens_append[of mul send pre rest]
      tokens_step_below split: prod.splits option.splits)

lemma webhook_drop_skipped:
  "examine co tx = Inr None \<Longrightarrow>
   webhook_loop co net (pre @ tx # rest) w = webhook_loop co net (pre @ rest) w"
  by (simp add: webhook_append[of co net pre "tx # rest"] webhook_append[of co net pre rest]
      webhook_step_skipped split: prod.splits option.splits)

subsection \<open>A live marker silences its key\<close>



subsection \<open>A loop that ends without an exception has marked what it let through\<close>



subsection \<open>Every mark follows its alert\<close>

lemma alerts_simps [simp]:
  "alerts [] = []"
  "alerts (xs @ ys) = alerts xs @ alerts ys"
  "alerts (Alert k a # xs) = Alert k a # alerts xs"
  "alerts (KvGet k # xs) = alerts xs"
  "alerts (KvPut k v ttl # xs) = alerts xs"
  "alerts (Delay d # xs) = alerts xs"
  "alerts (LogError m # xs) = alerts xs"
  by (simp_all add: alerts_def)

lemma atm_snoc:
  "alert_then_mark A (xs @ [e]) =
     (alert_then_mark A xs \<and>
      (case e of KvPut k v ttl \<Rightarrow> k \<in> set A \<or> (\<exists>a. Alert k a \<in> set xs) | _ \<Rightarrow> True))"
  by (induction A xs rule: alert_then_mark.induct) (auto split: event.splits)

lemma atm_emit:
  "alert_then_mark [] (trace w) \<Longrightarrow> \<not> is_put e \<Longrightarrow> alert_then_mark [] (trace (emit e w))"
  by (auto simp: atm_snoc is_put_def split: event.splits)

lemma atm_put:
  "alert_then_mark [] (trace w) \<Longrightarrow> Alert k a \<in> set (trace w) \<Longrightarrow>
   alert_then_mark [] (trace (kv_put k v ttl w))"
  by (auto simp: atm_snoc)

lemma atm_send:
  "alert_then_mark [] (trace w) \<Longrightarrow>
   alert_then_mark [] (trace (sendTelegramMessage net key a w))"
  unfolding sendTelegramMessage_def Let_def
  by (simp add: atm_emit is_put_def del: emit_simps)

lemma tokens_atm:
  "alert_then_mark [] (trace w) \<Longrightarrow>
   alert_then_mark [] (trace (snd (checkNewTokens_loop mul send tokens w)))"
proof (induction tokens arbitrary: w)
  case Nil
  then show ?case by simp
next
  case (Cons t tokens)
  show ?case
  proof (cases rule: tokens_cases[where token=t and w=w and send=send and mul=mul])
    case below
    then show ?thesis using Cons by (simp add: tokens_step_below)
  next
    case tracked
    have "alert_then_mark [] (trace (emit (KvGet (id_tok t)) w))"
      using Cons.prems by (rule atm_emit) (simp add: is_put_def)
    from Cons.IH[OF this] tracked show ?thesis by (simp add: tokens_step_tracked)
  next
    case sent
    let ?w1 = "emit (Alert (id_tok t) (id_tok t)) (emit (KvGet (id_tok t)) w)"
    have "alert_then_mark [] (trace ?w1)"
      using Cons.prems by (intro atm_emit) (simp_all add: is_put_def)
    then have "alert_then_mark [] (trace (kv_put (id_tok t) ''tracked'' None ?w1))"
      by (rule atm_put[where a="id_tok t"]) simp
    from Cons.IH[OF this] sent show ?thesis by (simp add: tokens_step_new_sent)
  next
    case thrown
    let ?w1 = "emit (Alert (id_tok t) (id_tok t)) (emit (KvGet (id_tok t)) w)"
    have "alert_then_mark [] (trace ?w1)"
      using Cons.prems by (intro atm_emit) (simp_all add: is_put_def)
    with thrown show ?thesis by (simp add: tokens_step_new_thrown)
  qed
qed

lemma webhook_atm:
  "alert_then_mark [] (trace w) \<Longrightarrow> alert_then_mark [] (trace (snd (webhook_loop co net txs w)))"
proof (induction txs arbitrary: w)
  case Nil
  then show ?case by simp
next
  case (Cons t txs)
  show ?case
  proof (cases rule: webhook_cases[where tx=t and w=w and co=co])
    case throws
    then show ?thesis using Cons.prems by (simp add: webhook_step_throws)
  next
    case skipped
    then show ?thesis using Cons by (simp add: webhook_step_skipped)
  next
    case (seen key ta)
    have "alert_then_mark [] (trace (emit (KvGet key) w))"
      using Cons.prems by (rule atm_emit) (simp add: is_put_def)
    from Cons.IH[OF this] seen show ?thesis by (simp add: webhook_step_seen)
  next
    case (unprintable key ta e)
    have "alert_then_mark [] (trace (emit (KvGet key) w))"
      using Cons.prems by (rule atm_emit) (simp add: is_put_def)
    with unprintable show ?thesis by (simp add: webhook_step_unprintable)
  next
    case (new key ta a)
    let ?w1 = "sendTelegramMessage net key a (emit (KvGet key) w)"
    have "alert_then_mark [] (trace ?w1)"
      using Cons.prems by (intro atm_send atm_emit) (simp_all add: is_put_def)
    then have "alert_then_mark [] (trace (kv_put key ''processed'' (Some 3600) ?w1))"
      by (rule atm_put[where a=a]) simp
    from Cons.IH[OF this] new show ?thesis by (simp add: webhook_step_new)
  qed
qed

subsection \<open>The outcome of a send does not steer the webhook loop\<close>




subsection \<open>The examination of one element\<close>

lemma get_prop_alt:
  "get_prop k v = (if v = JUndefined \<or> v = JNull then Inl TypeError else Inr (own_prop k v))"
  by (cases v) simp_all

lemma truthy_not_null: "js_truthy v \<Longrightarrow> v \<noteq> JUndefined \<and> v \<noteq> JNull"
  by (cases v) simp_all

lemma examine_null: "examine co JNull = Inl TypeError"
  by (simp add: examine_def and_then_def)

lemma examine_filtered_out: "filtered_out co tx \<Longrightarrow> examine co tx = Inr None"
  by (auto simp: filtered_out_def examine_def and_then_def get_prop_alt opt_prop_def Let_def
      dest: truthy_not_null)

lemma examine_passes:
  assumes "tx \<noteq> JNull" "tx \<noteq> JUndefined"
    and "own_prop ''type'' tx = JStr ''SWAP''" "own_prop ''platform'' tx = JStr ''Raydium''"
    and "js_truthy (own_prop ''swap'' (own_prop ''events'' tx))"
    and "le_zero co (own_prop ''inAmount'' (own_prop ''swap'' (own_prop ''events'' tx))) = Inr False"
    and "js_toString co (own_prop ''signature'' tx) = Inr s"
  shows "examine co tx =
     Inr (Some (PROCESSED_TRANSACTIONS @ ''_'' @ s,
          if own_prop ''tokenAddress'' (own_prop ''swap'' (own_prop ''events'' tx)) = JUndefined
          then JStr ''Unknown Address''
          else own_prop ''tokenAddress'' (own_prop ''swap'' (own_prop ''events'' tx))))"
proof -
  from assms(5) have e: "own_prop ''events'' tx \<noteq> JUndefined" "own_prop ''events'' tx \<noteq> JNull"
    by (auto dest: truthy_not_null)
  from assms(5) have sw: "own_prop ''swap'' (own_prop ''events'' tx) \<noteq> JUndefined"
    "own_prop ''swap'' (own_prop ''events'' tx) \<noteq> JNull"
    by (auto dest: truthy_not_null)
  show ?thesis using assms e sw
    by (simp add: examine_def and_then_def get_prop_alt opt_prop_def Let_def)
qed

subsection \<open>The example inputs, run\<close>

lemma marketCap_token_of:
  "s \<noteq> 0 \<Longrightarrow> p \<noteq> 0 \<Longrightarrow> marketCap mul (token_of i s p) = mul (Finite s) (Finite p)"
  by (simp add: marketCap_def token_of_def)

lemma id_token_of [simp]: "id_tok (token_of i s p) = i"
  by (simp add: token_of_def)

lemma gate_examples:
  "number_ge (marketCap exact_mul tokenA) 100000"
  "number_ge (marketCap exact_mul tokenB) 100000"
  "number_ge (marketCap exact_mul tokenC) 100000"
  "\<not> number_ge (marketCap exact_mul tokenLow) 100000"
  "\<not> number_ge (marketCap exact_mul tokenEdge) 100000"
  "number_ge (marketCap rounding_mul tokenEdge) 100000"
  by (simp_all add: marketCap_token_of tokenA_def tokenB_def tokenC_def tokenLow_def tokenEdge_def
      rounding_mul_def)

lemma id_examples [simp]:
  "id_tok tokenA = ''A''" "id_tok tokenB = ''B''" "id_tok tokenC = ''C''"
  "id_tok tokenLow = ''L''" "id_tok tokenEdge = ''E''"
  by (simp_all add: tokenA_def tokenB_def tokenC_def tokenLow_def tokenEdge_def)

lemma examine_raydium_swap:
  "examine plain (raydium_swap sg addr amount) =
     (if amount \<le> 0 then Inr None else Inr (Some (''processed_txns_'' @ sg, JStr addr)))"
  by (simp add: examine_def and_then_def raydium_swap_def opt_prop_def Let_def
      PROCESSED_TRANSACTIONS_def)

lemma examine_swap_without_amount:
  "examine plain (swap_without_amount sg addr) = Inr (Some (''processed_txns_'' @ sg, JStr addr))"
  by (simp add: examine_def and_then_def swap_without_amount_def opt_prop_def Let_def
      PROCESSED_TRANSACTIONS_def)

lemmas run_defs = checkNewTokens_def webhook_def kv_get_def kv_put_def emit_def sendAlert_def
  sendTelegramMessage_def Let_def REQUEST_DELAY_def
  delivers_def throws_def send_fails_at_def ok_def
  checkNewTokens_loop.simps webhook_loop.simps gate_examples
  examine_raydium_swap examine_swap_without_amount examine_null

lemma ex_tokens_run:
  "trace (checkNewTokens exact_mul delivers (Reply 200 (Some [tokenA])) Map.empty) =
     [HttpFetch ''https://mainnet.helius-rpc.com'', KvGet ''A'', Alert ''A'' ''A'',
      KvPut ''A'' ''tracked'' None]"
  by (simp add: run_defs)

lemma ex_webhook_run:
  "trace (snd (webhook (Some ''s'') (Some ''s'') (Parsed (JArr [raydium_swap ''S1'' ''T1'' 5]))
      plain delivers Map.empty)) =
     [KvGet ''processed_txns_S1'', Delay 500, Alert ''processed_txns_S1'' ''T1'',
      KvPut ''processed_txns_S1'' ''processed'' (Some 3600)]"
  by (simp add: run_defs)

subsection \<open>The handler and its loop\<close>

lemma webhook_snd_batch:
  "snd (webhook h h (Parsed (JArr txs)) co net store) =
     snd (webhook_loop co net txs \<lparr>kv = store, trace = []\<rparr>)"
  by (cases "webhook_loop co net txs \<lparr>kv = store, trace = []\<rparr>")
     (auto simp: webhook_def Let_def split: option.splits)


lemma webhook_world:
  "\<exists>txs. snd (webhook header secret request co net store) =
     snd (webhook_loop co net txs \<lparr>kv = store, trace = []\<rparr>)"
proof (cases "header = secret \<and> (\<exists>txs. request = Parsed (JArr txs))")
  case True
  then show ?thesis using webhook_snd_batch by metis
next
  case False
  then have "snd (webhook header secret request co net store) =
     snd (webhook_loop co net [] \<lparr>kv = store, trace = []\<rparr>)"
    by (auto simp: webhook_def Let_def split: body.splits jsval.splits)
  then show ?thesis by blast
qed

section \<open>The claims about the alert loops\<close>

text \<open>
  C1 as stated fails in both workers: for a new token and for a new swap the alert send
  comes first and the \<open>put\<close> of the marker last, so the trace of the run is not in
  mark-then-alert order.
\<close>

theorem mark_then_alert_counterexample:
  "trace (checkNewTokens exact_mul delivers (Reply 200 (Some [tokenA])) Map.empty) =
     [HttpFetch ''https://mainnet.helius-rpc.com'', KvGet ''A'', Alert ''A'' ''A'',
      KvPut ''A'' ''tracked'' None]
   \<and> \<not> mark_then_alert [] (trace (checkNewTokens exact_mul delivers (Reply 200 (Some [tokenA])) Map.empty))
   \<and> trace (snd (webhook (Some ''s'') (Some ''s'') (Parsed (JArr [raydium_swap ''S1'' ''T1'' 5]))
        plain delivers Map.empty)) =
     [KvGet ''processed_txns_S1'', Delay 500, Alert ''processed_txns_S1'' ''T1'',
      KvPut ''processed_txns_S1'' ''processed'' (Some 3600)]
   \<and> \<not> mark_then_alert []
        (trace (snd (webhook (Some ''s'') (Some ''s'') (Parsed (JArr [raydium_swap ''S1'' ''T1'' 5]))
           plain delivers Map.empty)))"
  by (simp add: ex_tokens_run ex_webhook_run)

text \<open>
  C1, amended (alert-then-mark). In every run of \<open>checkNewTokens\<close> and of the
  \<open>/webhook\<close> handler, each \<open>put\<close> of a marker comes after the alert send for the
  same key. For an entity that passes the filter and whose key has no truthy value in the
  store, the calls are, in this order: the \<open>get\<close>, the alert send, and only then the
  \<open>put\<close>. In \<open>checkNewTokens\<close> the \<open>put\<close> is made only if the send returned;
  in the webhook loop the send cannot throw and the \<open>put\<close> always follows.
\<close>

theorem alert_precedes_mark:
  "alert_then_mark [] (trace (checkNewTokens mul send upstream store))
   \<and> alert_then_mark [] (trace (snd (webhook header secret request co net store)))
   \<and> (number_ge (marketCap mul token) 100000 \<longrightarrow> \<not> truthy (map_option fst (kv w (id_tok token))) \<longrightarrow>
        trace (snd (checkNewTokens_loop mul send [token] w)) =
          trace w @ [KvGet (id_tok token), Alert (id_tok token) (id_tok token)] @
            (if send (Suc (length (trace w))) then [KvPut (id_tok token) ''tracked'' None] else []))
   \<and> (examine co tx = Inr (Some (key, ta)) \<longrightarrow> js_toString co ta = Inr a \<longrightarrow>
        \<not> truthy (map_option fst (kv w key)) \<longrightarrow>
        trace (snd (webhook_loop co net [tx] w)) =
          trace w @ [KvGet key, Delay 500, Alert key a] @
            (if net (Suc (Suc (length (trace w)))) then [] else [LogError ''Error sending Telegram message:'']) @
            [KvPut key ''processed'' (Some 3600)])"
proof -
  let ?w0 = "emit (HttpFetch ''https://mainnet.helius-rpc.com'') \<lparr>kv = store, trace = []\<rparr>"
  have w0: "alert_then_mark [] (trace ?w0)" by simp
  have a: "alert_then_mark [] (trace (checkNewTokens mul send upstream store))"
  proof (cases "attempt upstream")
    case (Inl c)
    then show ?thesis by (simp add: checkNewTokens_def)
  next
    case (Inr tokens)
    from tokens_atm[OF w0, of mul send tokens] Inr show ?thesis
      by (cases "checkNewTokens_loop mul send tokens ?w0")
         (auto simp: checkNewTokens_def atm_emit is_put_def simp del: emit_simps split: option.splits)
  qed
  have e: "alert_then_mark [] (trace \<lparr>kv = store, trace = []\<rparr>)" by simp
  have b: "alert_then_mark [] (trace (snd (webhook header secret request co net store)))"
    using webhook_atm[OF e, of co net] webhook_world[of header secret request co net store]
    by auto
  have c: "trace (snd (checkNewTokens_loop mul send [token] w)) =
          trace w @ [KvGet (id_tok token), Alert (id_tok token) (id_tok token)] @
            (if send (Suc (length (trace w))) then [KvPut (id_tok token) ''tracked'' None] else [])"
    if "number_ge (marketCap mul token) 100000" "\<not> truthy (map_option fst (kv w (id_tok token)))"
    using that by (cases "send (Suc (length (trace w)))")
      (simp_all add: tokens_step_new_sent tokens_step_new_thrown)
  have d: "trace (snd (webhook_loop co net [tx] w)) =
          trace w @ [KvGet key, Delay 500, Alert key a] @
            (if net (Suc (Suc (length (trace w)))) then [] else [LogError ''Error sending Telegram message:'']) @
            [KvPut key ''processed'' (Some 3600)]"
    if "examine co tx = Inr (Some (key, ta))" "js_toString co ta = Inr a"
      "\<not> truthy (map_option fst (kv w key))"
    using that by (simp add: webhook_step_new REQUEST_DELAY_def)
  from a b c d show ?thesis by blast
qed

theorem alert_precedes_mark_witness:
  "trace (snd (checkNewTokens_loop exact_mul delivers [tokenA] \<lparr>kv = Map.empty, trace = []\<rparr>)) =
      [KvGet ''A'', Alert ''A'' ''A'', KvPut ''A'' ''tracked'' None]
   \<and> trace (snd (webhook_loop plain (send_fails_at 2) [raydium_swap ''S1'' ''T1'' 5]
        \<lparr>kv = Map.empty, trace = []\<rparr>)) =
      [KvGet ''processed_txns_S1'', Delay 500, Alert ''processed_txns_S1'' ''T1'',
       LogError ''Error sending Telegram message:'',
       KvPut ''processed_txns_S1'' ''processed'' (Some 3600)]"
  using alert_precedes_mark [where send = delivers and token = tokenA and mul = exact_mul
      and w = "\<lparr>kv = Map.empty, trace = []\<rparr>" and tx = "raydium_swap ''S1'' ''T1'' 5"
      and co = plain and key = "''processed_txns_S1''" and ta = "JStr ''T1''" and a = "''T1''"
      and net = "send_fails_at 2" and upstream = Rejected and store = Map.empty
      and header = None and secret = None and request = Unparseable]
  by (simp add: gate_examples examine_raydium_swap delivers_def send_fails_at_def)

subsection \<open>Markers at the level of a whole run\<close>











text \<open>
  C7 (threshold gate). \<open>marketCap\<close> is the value the code computes, whatever the
  rounding of the product. A token for which \<open>marketCap >= 100000\<close> is false (for a
  finite value: one strictly below 100000) leaves no mark on the run: the loop over a
  batch that contains it does exactly what it does on the batch without it, so the store
  is neither read nor written for it and no alert is sent. A token for which the test
  holds (100000 included) is handled as follows wherever it stands in the batch, once the
  tokens before it have raised no exception: its key is looked up; if no truthy value is
  found the alert send follows, and the marker after a send that returned.
\<close>

theorem threshold_gate:
  "(\<not> number_ge (marketCap mul token) 100000 \<longrightarrow>
      checkNewTokens_loop mul send (pre @ token # rest) w = checkNewTokens_loop mul send (pre @ rest) w)
   \<and> (number_ge (marketCap mul token) 100000 \<longrightarrow>
      checkNewTokens_loop mul send (pre @ token # rest) w =
        (case checkNewTokens_loop mul send pre w of
           (Some e, w') \<Rightarrow> (Some e, w')
         | (None, w') \<Rightarrow>
             if truthy (map_option fst (kv w' (id_tok token)))
             then checkNewTokens_loop mul send rest (emit (KvGet (id_tok token)) w')
             else if send (Suc (length (trace w')))
             then checkNewTokens_loop mul send rest
                    (kv_put (id_tok token) ''tracked'' None
                       (emit (Alert (id_tok token) (id_tok token)) (emit (KvGet (id_tok token)) w')))
             else (Some (Error ''sendTelegramMessage''),
                   emit (Alert (id_tok token) (id_tok token)) (emit (KvGet (id_tok token)) w'))))"
proof (intro conjI impI)
  assume "\<not> number_ge (marketCap mul token) 100000"
  then show "checkNewTokens_loop mul send (pre @ token # rest) w = checkNewTokens_loop mul send (pre @ rest) w"
    by (rule tokens_drop_below)
next
  assume g: "number_ge (marketCap mul token) 100000"
  have step: "checkNewTokens_loop mul send (token # rest) w' =
      (if truthy (map_option fst (kv w' (id_tok token)))
       then checkNewTokens_loop mul send rest (emit (KvGet (id_tok token)) w')
       else if send (Suc (length (trace w')))
       then checkNewTokens_loop mul send rest
              (kv_put (id_tok token) ''tracked'' None
                 (emit (Alert (id_tok token) (id_tok token)) (emit (KvGet (id_tok token)) w')))
       else (Some (Error ''sendTelegramMessage''),
             emit (Alert (id_tok token) (id_tok token)) (emit (KvGet (id_tok token)) w')))" for w'
    using g by (simp add: tokens_step_tracked tokens_step_new_sent tokens_step_new_thrown)
  show "checkNewTokens_loop mul send (pre @ token # rest) w =
        (case checkNewTokens_loop mul send pre w of
           (Some e, w') \<Rightarrow> (Some e, w')
         | (None, w') \<Rightarrow>
             if truthy (map_option fst (kv w' (id_tok token)))
             then checkNewTokens_loop mul send rest (emit (KvGet (id_tok token)) w')
             else if send (Suc (length (trace w')))
             then checkNewTokens_loop mul send rest
                    (kv_put (id_tok token) ''tracked'' None
                       (emit (Alert (id_tok token) (id_tok token)) (emit (KvGet (id_tok token)) w')))
             else (Some (Error ''sendTelegramMessage''),
                   emit (Alert (id_tok token) (id_tok token)) (emit (KvGet (id_tok token)) w')))"
    by (simp add: tokens_append[of mul send pre "token # rest"] step split: prod.splits option.splits)
qed

theorem threshold_gate_witness:
  "marketCap exact_mul tokenLow = Finite (9999999 / 100)
   \<and> checkNewTokens_loop exact_mul delivers [tokenA, tokenLow, tokenB] \<lparr>kv = Map.empty, trace = []\<rparr> =
     checkNewTokens_loop exact_mul delivers [tokenA, tokenB] \<lparr>kv = Map.empty, trace = []\<rparr>
   \<and> marketCap exact_mul tokenB = Finite 100000
   \<and> trace (snd (checkNewTokens_loop exact_mul delivers [tokenA, tokenB] \<lparr>kv = Map.empty, trace = []\<rparr>)) =
       [KvGet ''A'', Alert ''A'' ''A'', KvPut ''A'' ''tracked'' None,
        KvGet ''B'', Alert ''B'' ''B'', KvPut ''B'' ''tracked'' None]
   \<and> marketCap rounding_mul tokenEdge = Finite 100000
   \<and> trace (snd (checkNewTokens_loop rounding_mul delivers [tokenEdge] \<lparr>kv = Map.empty, trace = []\<rparr>)) =
       [KvGet ''E'', Alert ''E'' ''E'', KvPut ''E'' ''tracked'' None]"
proof -
  let ?w = "\<lparr>kv = Map.empty, trace = []\<rparr>"
  have pre: "checkNewTokens_loop exact_mul delivers [tokenA] ?w =
      (None, \<lparr>kv = Map.empty(''A'' \<mapsto> (''tracked'', None)),
              trace = [KvGet ''A'', Alert ''A'' ''A'', KvPut ''A'' ''tracked'' None]\<rparr>)"
    by (simp add: run_defs)
  from threshold_gate [where token = tokenLow and pre = "[tokenA]" and rest = "[tokenB]"
      and send = delivers and mul = exact_mul and w = ?w, THEN conjunct1]
  have a: "checkNewTokens_loop exact_mul delivers [tokenA, tokenLow, tokenB] ?w =
     checkNewTokens_loop exact_mul delivers [tokenA, tokenB] ?w"
    by (simp add: gate_examples)
  from threshold_gate [where token = tokenB and pre = "[tokenA]" and rest = "[]"
      and send = delivers and mul = exact_mul and w = ?w, THEN conjunct2]
  have b: "trace (snd (checkNewTokens_loop exact_mul delivers [tokenA, tokenB] ?w)) =
       [KvGet ''A'', Alert ''A'' ''A'', KvPut ''A'' ''tracked'' None,
        KvGet ''B'', Alert ''B'' ''B'', KvPut ''B'' ''tracked'' None]"
    by (simp add: gate_examples pre delivers_def)
  from threshold_gate [where token = tokenEdge and pre = "[]" and rest = "[]"
      and send = delivers and mul = rounding_mul and w = ?w, THEN conjunct2]
  have c: "trace (snd (checkNewTokens_loop rounding_mul delivers [tokenEdge] ?w)) =
       [KvGet ''E'', Alert ''E'' ''E'', KvPut ''E'' ''tracked'' None]"
    by (simp add: gate_examples delivers_def)
  have m: "marketCap exact_mul tokenLow = Finite (9999999 / 100)"
    "marketCap exact_mul tokenB = Finite 100000"
    "marketCap rounding_mul tokenEdge = Finite 100000"
    by (simp_all add: marketCap_token_of tokenLow_def tokenB_def tokenEdge_def rounding_mul_def)
  from a b c m show ?thesis by simp
qed





text \<open>
  C9 (auth rejection). When the \<open>Authorization\<close> header differs from the secret, the
  handler answers 401 \<open>Unauthorized\<close> and nothing else happens: the trace is empty
  (no read or write of the store, no alert) and the store is as it was.
\<close>

theorem webhook_auth_rejection:
  "header \<noteq> secret \<Longrightarrow>
   webhook header secret request co net store =
     (Inr (401, ''Unauthorized''), \<lparr>kv = store, trace = []\<rparr>)"
  by (simp add: webhook_def)

theorem webhook_auth_rejection_witness:
  "Some ''wrong'' \<noteq> Some ''s3cret''
   \<and> webhook (Some ''wrong'') (Some ''s3cret'') (Parsed (JArr [raydium_swap ''SA'' ''TA'' 1]))
       plain delivers Map.empty =
       (Inr (401, ''Unauthorized''), \<lparr>kv = Map.empty, trace = []\<rparr>)"
  using webhook_auth_rejection [of "Some ''wrong''" "Some ''s3cret''"
      "Parsed (JArr [raydium_swap ''SA'' ''TA'' 1])" plain delivers Map.empty]
  by simp

text \<open>
  C10 as stated fails: a swap event without \<open>inAmount\<close> has no strictly positive
  amount, yet \<open>undefined <= 0\<close> is false, so the transaction is not skipped: its key
  is looked up, the alert is sent and the marker written.
\<close>

theorem missing_amount_not_skipped_counterexample:
  "webhook (Some ''s'') (Some ''s'') (Parsed (JArr [swap_without_amount ''S1'' ''T1'']))
     plain delivers Map.empty =
     (Inr (200, ''Webhook processed''),
      \<lparr>kv = Map.empty(''processed_txns_S1'' \<mapsto> (''processed'', Some 3600)),
       trace = [KvGet ''processed_txns_S1'', Delay 500, Alert ''processed_txns_S1'' ''T1'',
                KvPut ''processed_txns_S1'' ''processed'' (Some 3600)]\<rparr>)"
  by (simp add: run_defs)

text \<open>
  C10, amended. An element of an authenticated batch that is not \<open>null\<close> is skipped
  when its \<open>type\<close> is not the string \<open>SWAP\<close>, or its \<open>platform\<close> is not the
  string \<open>Raydium\<close>, or it has no truthy swap event, or \<open>inAmount <= 0\<close> holds of
  the swap event (a number that is 0 or less, \<open>null\<close>, \<open>false\<close>): the loop, and
  the handler, leave the same world as on the batch without it, so it gets no alert and no
  marker and the other elements are processed as usual. A transaction that passes the
  first three tests and for which \<open>inAmount <= 0\<close> is false goes on to the store; a
  missing \<open>inAmount\<close> is such a case. An element that is \<open>null\<close> makes the handler
  throw, and nothing after it is processed.
\<close>

theorem webhook_event_filter:
  "(tx \<noteq> JNull \<longrightarrow> tx \<noteq> JUndefined \<longrightarrow>
      own_prop ''type'' tx \<noteq> JStr ''SWAP''
      \<or> own_prop ''platform'' tx \<noteq> JStr ''Raydium''
      \<or> \<not> js_truthy (own_prop ''swap'' (own_prop ''events'' tx))
      \<or> le_zero co (own_prop ''inAmount'' (own_prop ''swap'' (own_prop ''events'' tx))) = Inr True \<longrightarrow>
      webhook_loop co net (pre @ tx # rest) w = webhook_loop co net (pre @ rest) w
      \<and> snd (webhook header header (Parsed (JArr (pre @ tx # rest))) co net store) =
        snd (webhook header header (Parsed (JArr (pre @ rest))) co net store))
   \<and> (tx \<noteq> JNull \<longrightarrow> tx \<noteq> JUndefined \<longrightarrow>
      own_prop ''type'' tx = JStr ''SWAP'' \<longrightarrow> own_prop ''platform'' tx = JStr ''Raydium'' \<longrightarrow>
      js_truthy (own_prop ''swap'' (own_prop ''events'' tx)) \<longrightarrow>
      le_zero co (own_prop ''inAmount'' (own_prop ''swap'' (own_prop ''events'' tx))) = Inr False \<longrightarrow>
      js_toString co (own_prop ''signature'' tx) = Inr s \<longrightarrow>
      examine co tx =
        Inr (Some (PROCESSED_TRANSACTIONS @ ''_'' @ s,
             if own_prop ''tokenAddress'' (own_prop ''swap'' (own_prop ''events'' tx)) = JUndefined
             then JStr ''Unknown Address''
             else own_prop ''tokenAddress'' (own_prop ''swap'' (own_prop ''events'' tx)))))
   \<and> le_zero co JUndefined = Inr False
   \<and> webhook_loop co net (JNull # rest) w = (Some TypeError, w)"
proof -
  have a: "webhook_loop co net (pre @ tx # rest) w = webhook_loop co net (pre @ rest) w
      \<and> snd (webhook header header (Parsed (JArr (pre @ tx # rest))) co net store) =
        snd (webhook header header (Parsed (JArr (pre @ rest))) co net store)"
    if "tx \<noteq> JNull" "tx \<noteq> JUndefined"
      "own_prop ''type'' tx \<noteq> JStr ''SWAP''
      \<or> own_prop ''platform'' tx \<noteq> JStr ''Raydium''
      \<or> \<not> js_truthy (own_prop ''swap'' (own_prop ''events'' tx))
      \<or> le_zero co (own_prop ''inAmount'' (own_prop ''swap'' (own_prop ''events'' tx))) = Inr True"
  proof -
    from that have "filtered_out co tx" by (simp add: filtered_out_def)
    then have e: "examine co tx = Inr None" by (rule examine_filtered_out)
    have "webhook_loop co net (pre @ tx # rest) w = webhook_loop co net (pre @ rest) w" for w
      using e by (rule webhook_drop_skipped)
    then show ?thesis by (simp add: webhook_snd_batch)
  qed
  have b: "examine co tx =
        Inr (Some (PROCESSED_TRANSACTIONS @ ''_'' @ s,
             if own_prop ''tokenAddress'' (own_prop ''swap'' (own_prop ''events'' tx)) = JUndefined
             then JStr ''Unknown Address''
             else own_prop ''tokenAddress'' (own_prop ''swap'' (own_prop ''events'' tx))))"
    if "tx \<noteq> JNull" "tx \<noteq> JUndefined"
      "own_prop ''type'' tx = JStr ''SWAP''" "own_prop ''platform'' tx = JStr ''Raydium''"
      "js_truthy (own_prop ''swap'' (own_prop ''events'' tx))"
      "le_zero co (own_prop ''inAmount'' (own_prop ''swap'' (own_prop ''events'' tx))) = Inr False"
      "js_toString co (own_prop ''signature'' tx) = Inr s"
    using that by (rule examine_passes)
  have c: "le_zero co JUndefined = Inr False" by simp
  have d: "webhook_loop co net (JNull # rest) w = (Some TypeError, w)"
    by (simp add: webhook_step_throws examine_null)
  from a b c d show ?thesis by blast
qed

theorem webhook_event_filter_witness:
  "trace (snd (webhook (Some ''s'') (Some ''s'')
      (Parsed (JArr [raydium_swap ''SA'' ''TA'' 1, raydium_swap ''SZ'' ''TZ'' 0, raydium_swap ''SC'' ''TC'' 3]))
      plain delivers Map.empty)) =
   [KvGet ''processed_txns_SA'', Delay 500, Alert ''processed_txns_SA'' ''TA'',
    KvPut ''processed_txns_SA'' ''processed'' (Some 3600),
    KvGet ''processed_txns_SC'', Delay 500, Alert ''processed_txns_SC'' ''TC'',
    KvPut ''processed_txns_SC'' ''processed'' (Some 3600)]
   \<and> examine plain (swap_without_amount ''S1'' ''T1'') = Inr (Some (''processed_txns_S1'', JStr ''T1''))"
proof -
  have h: "raydium_swap ''SZ'' ''TZ'' 0 \<noteq> JNull" "raydium_swap ''SZ'' ''TZ'' 0 \<noteq> JUndefined"
    "le_zero plain (own_prop ''inAmount'' (own_prop ''swap'' (own_prop ''events''
        (raydium_swap ''SZ'' ''TZ'' 0)))) = Inr True"
    by (simp_all add: raydium_swap_def)
  have r: "trace (snd (webhook (Some ''s'') (Some ''s'')
      (Parsed (JArr ([raydium_swap ''SA'' ''TA'' 1] @ [raydium_swap ''SC'' ''TC'' 3]))) plain delivers Map.empty)) =
   [KvGet ''processed_txns_SA'', Delay 500, Alert ''processed_txns_SA'' ''TA'',
    KvPut ''processed_txns_SA'' ''processed'' (Some 3600),
    KvGet ''processed_txns_SC'', Delay 500, Alert ''processed_txns_SC'' ''TC'',
    KvPut ''processed_txns_SC'' ''processed'' (Some 3600)]"
    by (simp add: run_defs)
  note t = webhook_event_filter [where co = plain and tx = "raydium_swap ''SZ'' ''TZ'' 0"
      and pre = "[raydium_swap ''SA'' ''TA'' 1]"
      and rest = "[raydium_swap ''SC'' ''TC'' 3]" and header = "Some ''s''" and net = delivers
      and store = Map.empty and w = "\<lparr>kv = Map.empty, trace = []\<rparr>"]
  from t[THEN conjunct1] h r have a: "trace (snd (webhook (Some ''s'') (Some ''s'')
      (Parsed (JArr [raydium_swap ''SA'' ''TA'' 1, raydium_swap ''SZ'' ''TZ'' 0, raydium_swap ''SC'' ''TC'' 3]))
      plain delivers Map.empty)) =
   [KvGet ''processed_txns_SA'', Delay 500, Alert ''processed_txns_SA'' ''TA'',
    KvPut ''processed_txns_SA'' ''processed'' (Some 3600),
    KvGet ''processed_txns_SC'', Delay 500, Alert ''processed_txns_SC'' ''TC'',
    KvPut ''processed_txns_SC'' ''processed'' (Some 3600)]"
    by simp
  note u = webhook_event_filter [where co = plain and tx = "swap_without_amount ''S1'' ''T1''"
      and s = "''S1''", THEN conjunct2, THEN conjunct1]
  from u have b: "examine plain (swap_without_amount ''S1'' ''T1'') =
      Inr (Some (''processed_txns_S1'', JStr ''T1''))"
    by (simp add: swap_without_amount_def PROCESSED_TRANSACTIONS_def)
  from a b show ?thesis by simp
qed

section \<open>The claim about the freshness cache\<close>

text \<open>
  C6 (cache freshness round trip), for the three caches: the symbol cache of
  \<open>handleInfoCommand\<close> under any symbol, the ticker cache of
  \<open>handleTickerCommand\<close> and the overview cache of \<open>handleGlobalCommand\<close>. A first
  read that finds no fresh entry and whose fetch succeeds stores the payload with the
  clock at the write, \<open>t1\<close>. A second read less than 300000 ms after \<open>t1\<close> takes the
  payload from the cache and does not fetch: the two reads fetch exactly once. A third
  read 300001 ms or more after \<open>t1\<close> fetches again, and when that fetch succeeds it
  overwrites the entry with the new payload and the clock at that write. In
  \<open>handleInfoCommand\<close> this holds whether or not the formatting of the payload throws.
\<close>

theorem cache_freshness_roundtrip:
  "((case ticker c s of None \<Rightarrow> True | Some e \<Rightarrow> 300000 \<le> t0 - lastUpdated e) \<longrightarrow>
      t2 - t1 < 300000 \<longrightarrow> 300001 \<le> t3 - t1 \<longrightarrow>
      (case handleInfoCommand_symbol fmt s t0 (Inr d) t1 c of (r1, c1, o1) \<Rightarrow>
       case handleInfoCommand_symbol fmt s t2 f2 t2' c1 of (r2, c2, o2) \<Rightarrow>
       case handleInfoCommand_symbol fmt s t3 f3 t3' c2 of (r3, c3, o3) \<Rightarrow>
         ticker c1 s = Some \<lparr>data = d, lastUpdated = t1\<rparr>
         \<and> fetches o1 = 1 \<and> fetches o2 = 0 \<and> c2 = c1
         \<and> (r2, o2) = (case fmt d of Inl err \<Rightarrow> (Inl err, []) | Inr m \<Rightarrow> (Inr (), [Answered m]))
         \<and> fetches o3 = 1
         \<and> (\<forall>d3. f3 = Inr d3 \<longrightarrow> ticker c3 s = Some \<lparr>data = d3, lastUpdated = t3'\<rparr>)))
   \<and> (\<not> (js_truthy (data (coinPaprika c)) \<and> t0 - lastUpdated (coinPaprika c) < 300000) \<longrightarrow>
      t2 - t1 < 300000 \<longrightarrow> 300001 \<le> t3 - t1 \<longrightarrow>
      (case handleTickerCommand_search fmtT t0 (Inr xs) t1 c of (c1, o1) \<Rightarrow>
       case handleTickerCommand_search fmtT t2 g2 t2' c1 of (c2, o2) \<Rightarrow>
       case handleTickerCommand_search fmtT t3 g3 t3' c2 of (c3, o3) \<Rightarrow>
         coinPaprika c1 = \<lparr>data = JArr xs, lastUpdated = t1\<rparr>
         \<and> fetches o1 = 1 \<and> fetches o2 = 0 \<and> c2 = c1
         \<and> o2 = [Answered (fmtT (JArr xs))]
         \<and> fetches o3 = 1
         \<and> (\<forall>ys. g3 = Inr ys \<longrightarrow> coinPaprika c3 = \<lparr>data = JArr ys, lastUpdated = t3'\<rparr>)))
   \<and> ((case global_c c of None \<Rightarrow> True | Some e \<Rightarrow> 300000 \<le> t0 - lastUpdated e) \<longrightarrow>
      t2 - t1 < 300000 \<longrightarrow> 300001 \<le> t3 - t1 \<longrightarrow>
      (case handleGlobalCommand_overview fmtG t0 (Inr d) t1 c of (c1, o1) \<Rightarrow>
       case handleGlobalCommand_overview fmtG t2 h2 t2' c1 of (c2, o2) \<Rightarrow>
       case handleGlobalCommand_overview fmtG t3 h3 t3' c2 of (c3, o3) \<Rightarrow>
         global_c c1 = Some \<lparr>data = d, lastUpdated = t1\<rparr>
         \<and> fetches o1 = 1 \<and> fetches o2 = 0 \<and> c2 = c1
         \<and> o2 = [Answered (fmtG d)]
         \<and> fetches o3 = 1
         \<and> (\<forall>d3. h3 = Inr d3 \<longrightarrow> global_c c3 = Some \<lparr>data = d3, lastUpdated = t3'\<rparr>)))"
proof (intro conjI impI)
  assume "case ticker c s of None \<Rightarrow> True | Some e \<Rightarrow> 300000 \<le> t0 - lastUpdated e"
    and "t2 - t1 < 300000" and "300001 \<le> t3 - t1"
  then show "case handleInfoCommand_symbol fmt s t0 (Inr d) t1 c of (r1, c1, o1) \<Rightarrow>
       case handleInfoCommand_symbol fmt s t2 f2 t2' c1 of (r2, c2, o2) \<Rightarrow>
       case handleInfoCommand_symbol fmt s t3 f3 t3' c2 of (r3, c3, o3) \<Rightarrow>
         ticker c1 s = Some \<lparr>data = d, lastUpdated = t1\<rparr>
         \<and> fetches o1 = 1 \<and> fetches o2 = 0 \<and> c2 = c1
         \<and> (r2, o2) = (case fmt d of Inl err \<Rightarrow> (Inl err, []) | Inr m \<Rightarrow> (Inr (), [Answered m]))
         \<and> fetches o3 = 1
         \<and> (\<forall>d3. f3 = Inr d3 \<longrightarrow> ticker c3 s = Some \<lparr>data = d3, lastUpdated = t3'\<rparr>)"
    by (auto simp: handleInfoCommand_symbol_def fresh_entry_def fetches_def Let_def
          split: option.splits sum.splits)
next
  assume "\<not> (js_truthy (data (coinPaprika c)) \<and> t0 - lastUpdated (coinPaprika c) < 300000)"
    and "t2 - t1 < 300000" and "300001 \<le> t3 - t1"
  then show "case handleTickerCommand_search fmtT t0 (Inr xs) t1 c of (c1, o1) \<Rightarrow>
       case handleTickerCommand_search fmtT t2 g2 t2' c1 of (c2, o2) \<Rightarrow>
       case handleTickerCommand_search fmtT t3 g3 t3' c2 of (c3, o3) \<Rightarrow>
         coinPaprika c1 = \<lparr>data = JArr xs, lastUpdated = t1\<rparr>
         \<and> fetches o1 = 1 \<and> fetches o2 = 0 \<and> c2 = c1
         \<and> o2 = [Answered (fmtT (JArr xs))]
         \<and> fetches o3 = 1
         \<and> (\<forall>ys. g3 = Inr ys \<longrightarrow> coinPaprika c3 = \<lparr>data = JArr ys, lastUpdated = t3'\<rparr>)"
    by (cases g3) (auto simp: handleTickerCommand_search_def fetches_def)
next
  assume "case global_c c of None \<Rightarrow> True | Some e \<Rightarrow> 300000 \<le> t0 - lastUpdated e"
    and "t2 - t1 < 300000" and "300001 \<le> t3 - t1"
  then show "case handleGlobalCommand_overview fmtG t0 (Inr d) t1 c of (c1, o1) \<Rightarrow>
       case handleGlobalCommand_overview fmtG t2 h2 t2' c1 of (c2, o2) \<Rightarrow>
       case handleGlobalCommand_overview fmtG t3 h3 t3' c2 of (c3, o3) \<Rightarrow>
         global_c c1 = Some \<lparr>data = d, lastUpdated = t1\<rparr>
         \<and> fetches o1 = 1 \<and> fetches o2 = 0 \<and> c2 = c1
         \<and> o2 = [Answered (fmtG d)]
         \<and> fetches o3 = 1
         \<and> (\<forall>d3. h3 = Inr d3 \<longrightarrow> global_c c3 = Some \<lparr>data = d3, lastUpdated = t3'\<rparr>)"
    by (cases h3) (auto simp: handleGlobalCommand_overview_def fetches_def split: option.splits)
qed

theorem cache_freshness_roundtrip_witness:
  "(case handleInfoCommand_symbol format_throws ''BTC'' 1000 (Inr (JStr ''q1'')) 1200 initial_cache of (r1, c1, o1) \<Rightarrow>
    case handleInfoCommand_symbol format_throws ''BTC'' 301199 (Inl (Error ''down'')) 301199 c1 of (r2, c2, o2) \<Rightarrow>
    case handleInfoCommand_symbol format_throws ''BTC'' 301201 (Inr (JStr ''q2'')) 301500 c2 of (r3, c3, o3) \<Rightarrow>
      r1 = Inl TypeError \<and> o1 = [Fetched ''BTC''] \<and> r2 = Inl TypeError \<and> o2 = []
      \<and> ticker c2 ''BTC'' = Some \<lparr>data = JStr ''q1'', lastUpdated = 1200\<rparr>
      \<and> o3 = [Fetched ''BTC'']
      \<and> ticker c3 ''BTC'' = Some \<lparr>data = JStr ''q2'', lastUpdated = 301500\<rparr>)
   \<and> (case handleInfoCommand_symbol format_ok ''BTC'' 1000 (Inr (JStr ''q1'')) 1200 initial_cache of (r1, c1, o1) \<Rightarrow>
    case handleInfoCommand_symbol format_ok ''BTC'' 301199 (Inl (Error ''down'')) 301199 c1 of (r2, c2, o2) \<Rightarrow>
      o1 = [Fetched ''BTC'', Answered ''info''] \<and> o2 = [Answered ''info''])
   \<and> (case handleTickerCommand_search format_list 1000 (Inr [JStr ''x1'']) 1200 initial_cache of (c1, o1) \<Rightarrow>
    case handleTickerCommand_search format_list 301199 (Inl (Error ''down'')) 301199 c1 of (c2, o2) \<Rightarrow>
    case handleTickerCommand_search format_list 301201 (Inr [JStr ''x2'']) 301500 c2 of (c3, o3) \<Rightarrow>
      fetches o1 + fetches o2 = 1 \<and> o2 = [Answered ''list'']
      \<and> fetches o3 = 1
      \<and> coinPaprika c3 = \<lparr>data = JArr [JStr ''x2''], lastUpdated = 301500\<rparr>)
   \<and> (case handleGlobalCommand_overview format_list 1000 (Inr (JStr ''g1'')) 1200 initial_cache of (c1, o1) \<Rightarrow>
    case handleGlobalCommand_overview format_list 301199 (Inl (Error ''down'')) 301199 c1 of (c2, o2) \<Rightarrow>
    case handleGlobalCommand_overview format_list 301201 (Inr (JStr ''g2'')) 301500 c2 of (c3, o3) \<Rightarrow>
      fetches o1 + fetches o2 = 1 \<and> o2 = [Answered ''list'']
      \<and> fetches o3 = 1
      \<and> global_c c3 = Some \<lparr>data = JStr ''g2'', lastUpdated = 301500\<rparr>)"
  using cache_freshness_roundtrip [where c = initial_cache and s = "''BTC''" and ?t0.0 = 1000
      and d = "JStr ''q1''" and ?t1.0 = 1200 and ?t2.0 = 301199 and ?f2.0 = "Inl (Error ''down'')"
      and t2' = 301199 and ?t3.0 = 301201 and ?f3.0 = "Inr (JStr ''q2'')" and t3' = 301500
      and fmt = format_throws
      and xs = "[JStr ''x1'']" and ?g2.0 = "Inl (Error ''down'')" and ?g3.0 = "Inr [JStr ''x2'']"
      and fmtT = format_list and fmtG = format_list
      and ?h2.0 = "Inl (Error ''down'')" and ?h3.0 = "Inr (JStr ''g2'')"]
  by (simp add: initial_cache_def handleInfoCommand_symbol_def fresh_entry_def
      handleTickerCommand_search_def handleGlobalCommand_overview_def fetches_def
      format_ok_def format_throws_def format_list_def Let_def)

end
